theory Spec2Isabelle
  imports Main "HOL-Library.Word" "HOL-Library.Multiset"
begin

section \<open>Storage encoding layer (oracle\_contracts.go, lines 109--211)\<close>

text \<open>
  The governance contract persists everything through a flat store of 32-byte words
  addressed by 32-byte locations (\<open>StateDB.GetState\<close> / \<open>SetState\<close> at the fixed
  governance address). A \<open>common.Hash\<close> is a \<open>256 word\<close> (big-endian), a byte is an
  \<open>8 word\<close>, a Go \<open>*big.Int\<close> is an \<open>int\<close>. \<open>crypto.Keccak256\<close> is not part of the
  file; it is a parameter \<open>K\<close> of every definition that hashes.
\<close>

type_synonym byte = "8 word"
type_synonym bytes = "byte list"
type_synonym hash = "256 word"
type_synonym StateDB = "hash \<Rightarrow> hash"

text \<open>\<open>big.Int.SetBytes\<close>: the big-endian unsigned value of a byte slice.\<close>

definition SetBytes :: "bytes \<Rightarrow> int" where
  "SetBytes bs = foldl (\<lambda>a b. a * 256 + uint b) 0 bs"

text \<open>
  \<open>big.Int.Bytes\<close>: the big-endian bytes of the absolute value, without leading zero
  bytes (the empty slice for 0). The slice it returns has capacity equal to its length.
\<close>

function natBytes :: "nat \<Rightarrow> bytes" where
  "natBytes n = (if n = 0 then [] else natBytes (n div 256) @ [of_nat (n mod 256)])"
  by pat_completeness auto
termination
  by (relation "measure id") auto

definition Bytes :: "int \<Rightarrow> bytes" where
  "Bytes x = natBytes (nat \<bar>x\<bar>)"

text \<open>\<open>big.Int.Uint64\<close>: the low 64 bits of the absolute value.\<close>

definition Uint64 :: "int \<Rightarrow> nat" where
  "Uint64 x = nat (\<bar>x\<bar> mod 2 ^ 64)"

text \<open>
  \<open>common.BytesToHash\<close>: a slice longer than 32 bytes is cropped from the left, a
  shorter one is right-aligned. \<open>common.BigToHash b = BytesToHash (b.Bytes())\<close>.
  \<open>Hash.Bytes\<close> gives the 32 bytes back.
\<close>

definition BytesToHash :: "bytes \<Rightarrow> hash" where
  "BytesToHash bs = word_of_int (SetBytes (drop (length bs - 32) bs))"

definition BigToHash :: "int \<Rightarrow> hash" where
  "BigToHash b = BytesToHash (Bytes b)"

definition HashBytes :: "hash \<Rightarrow> bytes" where
  "HashBytes h = map (\<lambda>i. ucast (drop_bit (8 * (31 - i)) h)) [0..<32]"

definition getState :: "StateDB \<Rightarrow> hash \<Rightarrow> hash" where
  "getState s loc = s loc"

definition setState :: "StateDB \<Rightarrow> hash \<Rightarrow> hash \<Rightarrow> StateDB" where
  "setState s loc val = s(loc := val)"

definition getStateBigInt :: "StateDB \<Rightarrow> int \<Rightarrow> int" where
  "getStateBigInt s loc = SetBytes (HashBytes (getState s (BigToHash loc)))"

definition setStateBigInt :: "StateDB \<Rightarrow> int \<Rightarrow> int \<Rightarrow> StateDB" where
  "setStateBigInt s loc val = setState s (BigToHash loc) (BigToHash val)"

definition getSlotLoc :: "(bytes \<Rightarrow> bytes) \<Rightarrow> int \<Rightarrow> int" where
  "getSlotLoc K loc = SetBytes (K (HashBytes (BigToHash loc)))"

text \<open>
  Go's \<open>b[:n]\<close> panics when \<open>n\<close> exceeds the capacity of \<open>b\<close>. Both slices that
  \<open>readBytes\<close> cuts have capacity equal to their length or are cut within their length,
  so the panic is the case \<open>n > length b\<close>; \<open>None\<close> is the panic.
\<close>

definition sliceTo :: "bytes \<Rightarrow> nat \<Rightarrow> bytes option" where
  "sliceTo b n = (if n \<le> length b then Some (take n b) else None)"

definition readBytes :: "(bytes \<Rightarrow> bytes) \<Rightarrow> StateDB \<Rightarrow> int \<Rightarrow> bytes option" where
  "readBytes K s loc =
     (let rawLength = getStateBigInt s loc;
          lengthByte = rawLength mod 256
      in if lengthByte mod 2 = 0
         then (let length = Uint64 (lengthByte div 2)
               in sliceTo (Bytes rawLength) length)
         else (let length = Uint64 ((rawLength - 1) div 2);
                   dataLoc = getSlotLoc K loc;
                   carry = (if length mod 32 > 0 then 1 else 0 :: nat);
                   chunks = length div 32 + carry;
                   data = concat (map (\<lambda>i. HashBytes (getState s (BigToHash (dataLoc + int i))))
                                      [0..<chunks])
               in sliceTo data length))"

text \<open>
  \<open>writeBytes\<close>. The padding loops append zero bytes up to 31 (short form) or 32 bytes
  (one chunk of the long form).
\<close>

definition padRight :: "nat \<Rightarrow> bytes \<Rightarrow> bytes" where
  "padRight n bs = bs @ replicate (n - length bs) 0"

definition writeChunk :: "StateDB \<Rightarrow> int \<Rightarrow> bytes \<Rightarrow> nat \<Rightarrow> StateDB" where
  "writeChunk s dataLoc data i =
     (let loc = dataLoc + int i;
          length = length data;
          maxLoc = (if (i + 1) * 32 > length then length else (i + 1) * 32);
          data2 = padRight 32 (drop (i * 32) (take maxLoc data))
      in setState s (BigToHash loc) (BytesToHash data2))"

definition writeBytes :: "(bytes \<Rightarrow> bytes) \<Rightarrow> StateDB \<Rightarrow> int \<Rightarrow> bytes \<Rightarrow> StateDB" where
  "writeBytes K s loc data =
     (let length = length data
      in if length = 0 then setState s (BigToHash loc) 0
         else if length < 32
         then (let data2 = padRight 31 data @ [of_nat (length * 2)]
               in setState s (BigToHash loc) (BytesToHash data2))
         else (let storedLength = int length * 2 + 1;
                   s1 = setStateBigInt s loc storedLength;
                   dataLoc = getSlotLoc K loc;
                   carry = (if length mod 32 > 0 then 1 else 0 :: nat);
                   chunks = length div 32 + carry
               in foldl (\<lambda>st i. writeChunk st dataLoc data i) s1 [0..<chunks]))"

text \<open>
  What \<open>readBytes\<close> returns at a location where \<open>writeBytes\<close> has written \<open>data\<close>.
  The short form (fewer than 32 bytes) lives in the one word at the location, so the read
  depends neither on the location nor on the rest of the store nor on the hash function
  (lemma \<open>readBytes_writeBytes_readWritten\<close> below); it is computed here on the empty
  store at location 0, and \<open>None\<close> is the panic of the slice expression. The long form
  is \<open>2 * length + 1\<close> at the location and the data in the words that follow
  \<open>Keccak256(location)\<close>, which \<open>readBytes\<close> reads back up to the length: the data as
  written, as long as the hash sends no two locations in use to overlapping words.
\<close>

definition readWritten :: "bytes \<Rightarrow> bytes option" where
  "readWritten data =
     (if length data < 32
      then readBytes (\<lambda>b. b) (writeBytes (\<lambda>b. b) (\<lambda>l. 0) 0 data) 0
      else Some data)"

section \<open>Governance state (oracle\_contracts.go, lines 271--875)\<close>

text \<open>
  On top of the flat store the file lays the contract's variables out the way Solidity
  would, and documents each one by its Solidity declaration (\<open>Node[] nodes\<close>,
  \<open>mapping(address => uint256) public nodesOffsetByAddress\<close>, ...). The record below
  is that declared state, one field per variable; every accessor of \<open>GovernanceState\<close>
  is then a read or an update of its field. What the record abstracts from is the address
  arithmetic: two different variables, array elements or map keys never share a storage
  word (Keccak-256 has no known collision). A \<open>bytes\<close> or \<open>string\<close> field of a node
  holds the bytes that \<open>writeBytes\<close> was last given for it, and a read of the field
  returns what \<open>readBytes\<close> returns for them (\<open>readWritten\<close>): the bytes, other bytes,
  or a panic. The elements of the two \<open>bytes[]\<close> arrays are kept as written: a handler
  appends one only after \<open>rlp.DecodeBytes\<close> has accepted it as the encoding of a struct,
  which is an RLP list and starts with a byte from \<open>0xc0\<close> up, and \<open>readBytes\<close> returns
  a string that does not start with a zero byte as it was written (lemma
  \<open>readWritten_id\<close>).

  Numbers are kept as the code has them: a \<open>*big.Int\<close> is an \<open>int\<close>, and
  \<open>setStateBigInt\<close> keeps the low 256 bits of the absolute value, as \<open>BigToHash\<close>
  does. An array is its length word and its elements by index; reading or writing an
  element does not look at the length, as in the source. A map has the value 0 at every
  key never written. Events (\<open>AddLog\<close>) touch nothing but the log and are left out.
\<close>

type_synonym address = "160 word"
type_synonym NodeID = hash

definition stored :: "int \<Rightarrow> int" where
  "stored v = \<bar>v\<bar> mod 2 ^ 256"

text \<open>\<open>idToAddress\<close>: the last 20 bytes of the 32-byte node identifier.\<close>

definition idToAddress :: "NodeID \<Rightarrow> address" where
  "idToAddress nid = ucast nid"

record nodeInfo =
  Owner :: address
  PublicKey :: bytes
  Staked :: int
  Fined :: int
  Name :: string
  Email :: string
  Location :: string
  Url :: string

record delegatorInfo =
  Owner :: address
  Value :: int
  UndelegatedAt :: int

record GovernanceState =
  roundHeight :: "int \<Rightarrow> int"
  totalStaked :: int
  nodesLength :: int
  nodes :: "int \<Rightarrow> nodeInfo"
  nodesOffsetByAddress :: "address \<Rightarrow> int"
  nodesOffsetByNodeKeyAddress :: "address \<Rightarrow> int"
  delegatorsLength :: "address \<Rightarrow> int"
  delegators :: "address \<Rightarrow> int \<Rightarrow> delegatorInfo"
  delegatorsOffset :: "address \<Rightarrow> address \<Rightarrow> int"
  crsRound :: int
  crs :: hash
  dkgRound :: int
  dkgMasterPublicKeys :: "bytes list"
  dkgComplaints :: "bytes list"
  dkgReady :: "address \<Rightarrow> int"
  dkgReadysCount :: int
  dkgFinalized :: "address \<Rightarrow> int"
  dkgFinalizedsCount :: int
  minStake :: int
  lockupPeriod :: int
  dkgSetSize :: int
  fineValues :: "int \<Rightarrow> int"
  finedRecords :: "hash \<Rightarrow> int"

definition RoundHeight :: "GovernanceState \<Rightarrow> int \<Rightarrow> int" where
  "RoundHeight s round = roundHeight s round"

definition TotalStaked :: "GovernanceState \<Rightarrow> int" where
  "TotalStaked s = totalStaked s"

definition IncTotalStaked :: "GovernanceState \<Rightarrow> int \<Rightarrow> GovernanceState" where
  "IncTotalStaked s amount = s\<lparr>totalStaked := stored (TotalStaked s + amount)\<rparr>"

definition DecTotalStaked :: "GovernanceState \<Rightarrow> int \<Rightarrow> GovernanceState" where
  "DecTotalStaked s amount = s\<lparr>totalStaked := stored (TotalStaked s - amount)\<rparr>"

subsection \<open>\<open>Node[] nodes\<close> and its two reverse indices\<close>

definition LenNodes :: "GovernanceState \<Rightarrow> int" where
  "LenNodes s = nodesLength s"

text \<open>
  \<open>[]byte(str)\<close> and \<open>string(b)\<close>: a Go string is a sequence of bytes.
\<close>

definition bytesOfString :: "string \<Rightarrow> bytes" where
  "bytesOfString str = map of_char str"

definition stringOfBytes :: "bytes \<Rightarrow> string" where
  "stringOfBytes b = map (\<lambda>x. char_of (unat x)) b"

text \<open>
  \<open>Node\<close> reads the owner word and the two numbers as they are, and the public key and
  the four strings through \<open>readBytes\<close>; \<open>None\<close> is the panic of one of these reads.
  \<open>UpdateNode\<close> writes all eight fields.
\<close>

definition Node :: "GovernanceState \<Rightarrow> int \<Rightarrow> nodeInfo option" where
  "Node s index =
     (let n = nodes s index
      in case readWritten (PublicKey n) of
           None \<Rightarrow> None
         | Some publicKey \<Rightarrow>
        (case readWritten (bytesOfString (Name n)) of
           None \<Rightarrow> None
         | Some name \<Rightarrow>
        (case readWritten (bytesOfString (Email n)) of
           None \<Rightarrow> None
         | Some email \<Rightarrow>
        (case readWritten (bytesOfString (Location n)) of
           None \<Rightarrow> None
         | Some location \<Rightarrow>
        (case readWritten (bytesOfString (Url n)) of
           None \<Rightarrow> None
         | Some url \<Rightarrow>
             Some \<lparr>nodeInfo.Owner = nodeInfo.Owner n, PublicKey = publicKey,
                   Staked = Staked n, Fined = Fined n, Name = stringOfBytes name,
                   Email = stringOfBytes email, Location = stringOfBytes location,
                   Url = stringOfBytes url\<rparr>)))))"

definition UpdateNode :: "GovernanceState \<Rightarrow> int \<Rightarrow> nodeInfo \<Rightarrow> GovernanceState" where
  "UpdateNode s index n =
     s\<lparr>nodes := (nodes s)(index := n\<lparr>Staked := stored (Staked n), Fined := stored (Fined n)\<rparr>)\<rparr>"

definition PushNode :: "GovernanceState \<Rightarrow> nodeInfo \<Rightarrow> GovernanceState" where
  "PushNode s n =
     (let arrayLength = LenNodes s;
          s1 = s\<lparr>nodesLength := stored (arrayLength + 1)\<rparr>
      in UpdateNode s1 arrayLength n)"

definition emptyNode :: nodeInfo where
  "emptyNode = \<lparr>nodeInfo.Owner = 0, PublicKey = [], Staked = 0, Fined = 0, Name = [],
     Email = [], Location = [], Url = []\<rparr>"

definition PopLastNode :: "GovernanceState \<Rightarrow> GovernanceState" where
  "PopLastNode s =
     (let arrayLength = LenNodes s;
          newArrayLength = arrayLength - 1;
          s1 = s\<lparr>nodesLength := stored newArrayLength\<rparr>
      in UpdateNode s1 newArrayLength emptyNode)"

text \<open>
  The loops over the node array run \<open>i\<close> from 0 while \<open>i < int64(LenNodes().Uint64())\<close>.
\<close>

definition int64 :: "nat \<Rightarrow> int" where
  "int64 n = (if n mod 2 ^ 64 < 2 ^ 63 then int (n mod 2 ^ 64) else int (n mod 2 ^ 64) - 2 ^ 64)"

definition MinStake :: "GovernanceState \<Rightarrow> int" where
  "MinStake s = minStake s"

definition QualifiedNodes :: "GovernanceState \<Rightarrow> nodeInfo list option" where
  "QualifiedNodes s =
     (case those (map (\<lambda>i. Node s (int i)) [0..<nat (int64 (Uint64 (LenNodes s)))]) of
        None \<Rightarrow> None
      | Some ns \<Rightarrow> Some (filter (\<lambda>node. Staked node - Fined node \<ge> MinStake s) ns))"

definition NodesOffsetByAddress :: "GovernanceState \<Rightarrow> address \<Rightarrow> int" where
  "NodesOffsetByAddress s addr = nodesOffsetByAddress s addr - 1"

definition PutNodesOffsetByAddress :: "GovernanceState \<Rightarrow> address \<Rightarrow> int \<Rightarrow> GovernanceState" where
  "PutNodesOffsetByAddress s addr offset =
     s\<lparr>nodesOffsetByAddress := (nodesOffsetByAddress s)(addr := stored (offset + 1))\<rparr>"

definition DeleteNodesOffsetByAddress :: "GovernanceState \<Rightarrow> address \<Rightarrow> GovernanceState" where
  "DeleteNodesOffsetByAddress s addr =
     s\<lparr>nodesOffsetByAddress := (nodesOffsetByAddress s)(addr := 0)\<rparr>"

definition NodesOffsetByNodeKeyAddress :: "GovernanceState \<Rightarrow> address \<Rightarrow> int" where
  "NodesOffsetByNodeKeyAddress s addr = nodesOffsetByNodeKeyAddress s addr - 1"

definition PutNodesOffsetByNodeKeyAddress ::
  "GovernanceState \<Rightarrow> address \<Rightarrow> int \<Rightarrow> GovernanceState" where
  "PutNodesOffsetByNodeKeyAddress s addr offset =
     s\<lparr>nodesOffsetByNodeKeyAddress :=
          (nodesOffsetByNodeKeyAddress s)(addr := stored (offset + 1))\<rparr>"

definition DeleteNodesOffsetByNodeKeyAddress :: "GovernanceState \<Rightarrow> address \<Rightarrow> GovernanceState" where
  "DeleteNodesOffsetByNodeKeyAddress s addr =
     s\<lparr>nodesOffsetByNodeKeyAddress := (nodesOffsetByNodeKeyAddress s)(addr := 0)\<rparr>"

subsection \<open>\<open>mapping(address => Delegator[]) delegators\<close> and its reverse index\<close>

definition LenDelegators :: "GovernanceState \<Rightarrow> address \<Rightarrow> int" where
  "LenDelegators s nodeAddr = delegatorsLength s nodeAddr"

definition Delegator :: "GovernanceState \<Rightarrow> address \<Rightarrow> int \<Rightarrow> delegatorInfo" where
  "Delegator s nodeAddr offset = delegators s nodeAddr offset"

definition UpdateDelegator ::
  "GovernanceState \<Rightarrow> address \<Rightarrow> int \<Rightarrow> delegatorInfo \<Rightarrow> GovernanceState" where
  "UpdateDelegator s nodeAddr offset delegator =
     s\<lparr>delegators := (delegators s)(nodeAddr := (delegators s nodeAddr)
          (offset := delegator\<lparr>Value := stored (Value delegator),
                                UndelegatedAt := stored (UndelegatedAt delegator)\<rparr>))\<rparr>"

definition PushDelegator :: "GovernanceState \<Rightarrow> address \<Rightarrow> delegatorInfo \<Rightarrow> GovernanceState" where
  "PushDelegator s nodeAddr delegator =
     (let arrayLength = LenDelegators s nodeAddr;
          s1 = s\<lparr>delegatorsLength := (delegatorsLength s)(nodeAddr := stored (arrayLength + 1))\<rparr>
      in UpdateDelegator s1 nodeAddr arrayLength delegator)"

definition PopLastDelegator :: "GovernanceState \<Rightarrow> address \<Rightarrow> GovernanceState" where
  "PopLastDelegator s nodeAddr =
     (let arrayLength = LenDelegators s nodeAddr;
          newArrayLength = arrayLength - 1;
          s1 = s\<lparr>delegatorsLength := (delegatorsLength s)(nodeAddr := stored newArrayLength)\<rparr>
      in UpdateDelegator s1 nodeAddr newArrayLength
           \<lparr>Owner = 0, Value = 0, UndelegatedAt = 0\<rparr>)"

definition DelegatorsOffset :: "GovernanceState \<Rightarrow> address \<Rightarrow> address \<Rightarrow> int" where
  "DelegatorsOffset s nodeAddr delegatorAddr = delegatorsOffset s nodeAddr delegatorAddr - 1"

definition PutDelegatorOffset ::
  "GovernanceState \<Rightarrow> address \<Rightarrow> address \<Rightarrow> int \<Rightarrow> GovernanceState" where
  "PutDelegatorOffset s nodeAddr delegatorAddr offset =
     s\<lparr>delegatorsOffset := (delegatorsOffset s)(nodeAddr := (delegatorsOffset s nodeAddr)
          (delegatorAddr := stored (offset + 1)))\<rparr>"

definition DeleteDelegatorsOffset :: "GovernanceState \<Rightarrow> address \<Rightarrow> address \<Rightarrow> GovernanceState" where
  "DeleteDelegatorsOffset s nodeAddr delegatorAddr =
     s\<lparr>delegatorsOffset := (delegatorsOffset s)(nodeAddr := (delegatorsOffset s nodeAddr)
          (delegatorAddr := 0))\<rparr>"

subsection \<open>CRS, DKG round state, configuration and fine records\<close>

definition CRSRound :: "GovernanceState \<Rightarrow> int" where
  "CRSRound s = crsRound s"

definition CRS :: "GovernanceState \<Rightarrow> hash" where
  "CRS s = crs s"

definition DKGRound :: "GovernanceState \<Rightarrow> int" where
  "DKGRound s = dkgRound s"

definition SetDKGRound :: "GovernanceState \<Rightarrow> int \<Rightarrow> GovernanceState" where
  "SetDKGRound s round = s\<lparr>dkgRound := stored round\<rparr>"

text \<open>
  The two \<open>bytes[]\<close> arrays: \<open>appendTo1DByteArray\<close> adds an element at the end,
  \<open>read1DByteArray\<close> reads all of them, \<open>erase1DByteArray\<close> erases every element and
  sets the length to 0.
\<close>

definition DKGMasterPublicKeys :: "GovernanceState \<Rightarrow> bytes list" where
  "DKGMasterPublicKeys s = dkgMasterPublicKeys s"

definition PushDKGMasterPublicKey :: "GovernanceState \<Rightarrow> bytes \<Rightarrow> GovernanceState" where
  "PushDKGMasterPublicKey s mpk = s\<lparr>dkgMasterPublicKeys := dkgMasterPublicKeys s @ [mpk]\<rparr>"

definition ClearDKGMasterPublicKeys :: "GovernanceState \<Rightarrow> GovernanceState" where
  "ClearDKGMasterPublicKeys s = s\<lparr>dkgMasterPublicKeys := []\<rparr>"

definition DKGComplaints :: "GovernanceState \<Rightarrow> bytes list" where
  "DKGComplaints s = dkgComplaints s"

definition PushDKGComplaint :: "GovernanceState \<Rightarrow> bytes \<Rightarrow> GovernanceState" where
  "PushDKGComplaint s complaint = s\<lparr>dkgComplaints := dkgComplaints s @ [complaint]\<rparr>"

definition ClearDKGComplaints :: "GovernanceState \<Rightarrow> GovernanceState" where
  "ClearDKGComplaints s = s\<lparr>dkgComplaints := []\<rparr>"

definition DKGMPKReady :: "GovernanceState \<Rightarrow> address \<Rightarrow> bool" where
  "DKGMPKReady s addr = (dkgReady s addr \<noteq> 0)"

definition PutDKGMPKReady :: "GovernanceState \<Rightarrow> address \<Rightarrow> bool \<Rightarrow> GovernanceState" where
  "PutDKGMPKReady s addr ready =
     (let res = (if ready then 1 else 0)
      in s\<lparr>dkgReady := (dkgReady s)(addr := res)\<rparr>)"

definition ClearDKGMPKReady :: "GovernanceState \<Rightarrow> NodeID list \<Rightarrow> GovernanceState" where
  "ClearDKGMPKReady s dkgSet = foldl (\<lambda>st nid. PutDKGMPKReady st (idToAddress nid) False) s dkgSet"

definition DKGMPKReadysCount :: "GovernanceState \<Rightarrow> int" where
  "DKGMPKReadysCount s = dkgReadysCount s"

definition IncDKGMPKReadysCount :: "GovernanceState \<Rightarrow> GovernanceState" where
  "IncDKGMPKReadysCount s = s\<lparr>dkgReadysCount := stored (dkgReadysCount s + 1)\<rparr>"

definition ResetDKGMPKReadysCount :: "GovernanceState \<Rightarrow> GovernanceState" where
  "ResetDKGMPKReadysCount s = s\<lparr>dkgReadysCount := 0\<rparr>"

definition DKGFinalized :: "GovernanceState \<Rightarrow> address \<Rightarrow> bool" where
  "DKGFinalized s addr = (dkgFinalized s addr \<noteq> 0)"

definition PutDKGFinalized :: "GovernanceState \<Rightarrow> address \<Rightarrow> bool \<Rightarrow> GovernanceState" where
  "PutDKGFinalized s addr finalized =
     (let res = (if finalized then 1 else 0)
      in s\<lparr>dkgFinalized := (dkgFinalized s)(addr := res)\<rparr>)"

definition ClearDKGFinalized :: "GovernanceState \<Rightarrow> NodeID list \<Rightarrow> GovernanceState" where
  "ClearDKGFinalized s dkgSet = foldl (\<lambda>st nid. PutDKGFinalized st (idToAddress nid) False) s dkgSet"

definition DKGFinalizedsCount :: "GovernanceState \<Rightarrow> int" where
  "DKGFinalizedsCount s = dkgFinalizedsCount s"

definition IncDKGFinalizedsCount :: "GovernanceState \<Rightarrow> GovernanceState" where
  "IncDKGFinalizedsCount s = s\<lparr>dkgFinalizedsCount := stored (dkgFinalizedsCount s + 1)\<rparr>"

definition ResetDKGFinalizedsCount :: "GovernanceState \<Rightarrow> GovernanceState" where
  "ResetDKGFinalizedsCount s = s\<lparr>dkgFinalizedsCount := 0\<rparr>"

definition LockupPeriod :: "GovernanceState \<Rightarrow> int" where
  "LockupPeriod s = lockupPeriod s"

definition DKGSetSize :: "GovernanceState \<Rightarrow> int" where
  "DKGSetSize s = dkgSetSize s"

definition FineValue :: "GovernanceState \<Rightarrow> int \<Rightarrow> int" where
  "FineValue s index = fineValues s index"

definition FineRecords :: "GovernanceState \<Rightarrow> hash \<Rightarrow> bool" where
  "FineRecords s recordHash = (finedRecords s recordHash > 0)"

definition SetFineRecords :: "GovernanceState \<Rightarrow> hash \<Rightarrow> bool \<Rightarrow> GovernanceState" where
  "SetFineRecords s recordHash status =
     (let val = (if status then 1 else 0)
      in s\<lparr>finedRecords := (finedRecords s)(recordHash := val)\<rparr>)"

section \<open>The contract and its collaborators (lines 92--98, 481--489, 1139--1290)\<close>

text \<open>
  A decoded signed artifact (a DKG master public key, an MPK-ready or finalize message, a
  vote, a block) is known to this file by its \<open>ProposerID\<close> only; a DKG complaint also
  carries the proposer of the private share it is about. The decoders (\<open>rlp.DecodeBytes\<close>),
  the signature and misbehaviour checks of \<open>dexon-consensus\<close>, the public-key functions
  of \<open>crypto\<close>, Keccak-256, the historical state lookup of the EVM and the node-set
  sampling are outside the file: they are the fields of the record \<open>ext\<close>, and every
  function that calls one of them takes the record as its first argument. \<open>None\<close> is the
  error return of a collaborator.
\<close>

record SignedMsg =
  ProposerID :: NodeID
  Content :: bytes

record Complaint = SignedMsg +
  PrivateShareProposerID :: NodeID

record ext =
  GovernanceContractAddress :: address
  DKGDelayRound :: nat
  ConfigRoundShift :: nat
  Keccak256Hash :: "bytes \<Rightarrow> hash"
  UnmarshalPubkey :: "bytes \<Rightarrow> bytes option"
  PubkeyToAddress :: "bytes \<Rightarrow> address"
  NewNodeID :: "bytes \<Rightarrow> NodeID option"
  GetSubSet :: "nat \<Rightarrow> hash \<Rightarrow> NodeID list \<Rightarrow> NodeID list"
  StateAtNumber :: "nat \<Rightarrow> GovernanceState option"
  DecodeMasterPublicKey :: "bytes \<Rightarrow> SignedMsg option"
  DecodeComplaint :: "bytes \<Rightarrow> Complaint option"
  DecodeMPKReady :: "bytes \<Rightarrow> SignedMsg option"
  DecodeFinalize :: "bytes \<Rightarrow> SignedMsg option"
  DecodeVote :: "bytes \<Rightarrow> SignedMsg option"
  DecodeBlock :: "bytes \<Rightarrow> SignedMsg option"
  VerifyDKGMasterPublicKeySignature :: "SignedMsg \<Rightarrow> bool"
  VerifyDKGComplaintSignature :: "Complaint \<Rightarrow> bool"
  VerifyDKGMPKReadySignature :: "SignedMsg \<Rightarrow> bool"
  VerifyDKGFinalizeSignature :: "SignedMsg \<Rightarrow> bool"
  VerifyDKGComplaint :: "Complaint \<Rightarrow> SignedMsg \<Rightarrow> bool option"
  NeedPenaltyDKGPrivateShare :: "Complaint \<Rightarrow> SignedMsg \<Rightarrow> bool option"
  NeedPenaltyForkVote :: "SignedMsg \<Rightarrow> SignedMsg \<Rightarrow> bool option"
  NeedPenaltyForkBlock :: "SignedMsg \<Rightarrow> SignedMsg \<Rightarrow> bool option"

text \<open>
  \<open>GovernanceContract\<close>: what a handler reaches through \<open>g.evm\<close>, \<open>g.contract\<close> and
  \<open>g.state\<close>. The round, the time, the caller and the attached value are fixed during a
  call; the gas left, the governance state and the account balances change.
\<close>

record GovernanceContract =
  evm_Round :: int
  evm_Time :: int
  contract_Caller :: address
  contract_Value :: int
  contract_Gas :: nat
  state :: GovernanceState
  balance :: "address \<Rightarrow> int"

text \<open>
  A handler returns \<open>(ret, err)\<close>; \<open>ret\<close> is \<open>nil\<close> in every handler below, so the
  model returns the contract after the call and the error, \<open>None\<close> for \<open>nil\<close>. A Go
  \<open>panic\<close> is the error \<open>Panic\<close>.
\<close>

datatype error = errExecutionReverted | ErrOutOfGas | errAlreadyFined | errNotFound | Panic

type_synonym result = "GovernanceContract \<times> error option"

definition publicKeyToNodeKeyAddress :: "ext \<Rightarrow> bytes \<Rightarrow> address option" where
  "publicKeyToNodeKeyAddress X pkBytes =
     (case UnmarshalPubkey X pkBytes of
        None \<Rightarrow> None
      | Some pk \<Rightarrow> Some (PubkeyToAddress X pk))"

definition PutNodeOffsets :: "ext \<Rightarrow> GovernanceState \<Rightarrow> nodeInfo \<Rightarrow> int \<Rightarrow> GovernanceState option" where
  "PutNodeOffsets X s n offset =
     (case publicKeyToNodeKeyAddress X (PublicKey n) of
        None \<Rightarrow> None
      | Some address \<Rightarrow>
          Some (PutNodesOffsetByAddress (PutNodesOffsetByNodeKeyAddress s address offset)
                  (nodeInfo.Owner n) offset))"

text \<open>
  Modelled from the spec: \<open>Contract.UseGas\<close> is declared outside the file. It is the
  gas meter, \<open>useGas(amount) -> ok\<close>: it refuses an amount larger than the gas left and
  deducts the amount otherwise.
\<close>

definition UseGas :: "GovernanceContract \<Rightarrow> nat \<Rightarrow> GovernanceContract \<times> bool" where
  "UseGas g gas =
     (if contract_Gas g < gas then (g, False)
      else (g\<lparr>contract_Gas := contract_Gas g - gas\<rparr>, True))"

text \<open>
  Modelled from the spec: \<open>evm.CanTransfer\<close> and \<open>evm.Transfer\<close> are declared outside
  the file. They are the value transfer, \<open>canTransfer(from, amount) -> bool\<close> and
  \<open>transfer(from, to, amount)\<close>: the balance of the sender must cover the amount, which
  moves from the sender's account to the receiver's.
\<close>

definition CanTransfer :: "GovernanceContract \<Rightarrow> address \<Rightarrow> int \<Rightarrow> bool" where
  "CanTransfer g from amount = (balance g from \<ge> amount)"

definition Transfer :: "GovernanceContract \<Rightarrow> address \<Rightarrow> address \<Rightarrow> int \<Rightarrow> GovernanceContract" where
  "Transfer g from to amount =
     (let b1 = (balance g)(from := balance g from - amount);
          b2 = b1(to := b1 to + amount)
      in g\<lparr>balance := b2\<rparr>)"

definition transfer :: "GovernanceContract \<Rightarrow> address \<Rightarrow> address \<Rightarrow> int \<Rightarrow> GovernanceContract \<times> bool" where
  "transfer g from to amount =
     (if CanTransfer g from amount then (Transfer g from to amount, True) else (g, False))"

definition useGas :: "GovernanceContract \<Rightarrow> nat \<Rightarrow> result" where
  "useGas g gas =
     (case UseGas g gas of
        (g', False) \<Rightarrow> (g', Some ErrOutOfGas)
      | (g', True) \<Rightarrow> (g', None))"

definition penalize :: "GovernanceContract \<Rightarrow> result" where
  "penalize g = (fst (useGas g (contract_Gas g)), Some errExecutionReverted)"

subsection \<open>Round snapshots and the DKG set\<close>

definition getRoundState :: "ext \<Rightarrow> GovernanceContract \<Rightarrow> int \<Rightarrow> GovernanceState option" where
  "getRoundState X g round =
     (let gs = state g;
          height = Uint64 (RoundHeight gs round)
      in if Uint64 round > ConfigRoundShift X \<and> height = 0 then None
         else StateAtNumber X height)"

definition getConfigState :: "ext \<Rightarrow> GovernanceContract \<Rightarrow> int \<Rightarrow> GovernanceState option" where
  "getConfigState X g round =
     (let configRound = (if Uint64 round > ConfigRoundShift X
                         then round - int (ConfigRoundShift X) else 0)
      in getRoundState X g configRound)"

definition configDKGSetSize :: "ext \<Rightarrow> GovernanceContract \<Rightarrow> int \<Rightarrow> int" where
  "configDKGSetSize X g round =
     (case getConfigState X g round of
        None \<Rightarrow> 0
      | Some s \<Rightarrow> DKGSetSize s)"

text \<open>
  \<open>getDKGSet\<close>. The result is the list of the members of the set; \<open>None\<close> is the panic
  on a node record that cannot be read or on a qualified node whose public key does not
  parse.
\<close>

fun nodeIDs :: "ext \<Rightarrow> nodeInfo list \<Rightarrow> NodeID list option" where
  "nodeIDs X [] = Some []"
| "nodeIDs X (x # xs) =
     (case NewNodeID X (PublicKey x) of
        None \<Rightarrow> None
      | Some nid \<Rightarrow> (case nodeIDs X xs of None \<Rightarrow> None | Some ids \<Rightarrow> Some (nid # ids)))"

definition dkgSetFor :: "ext \<Rightarrow> GovernanceContract \<Rightarrow> int \<Rightarrow> hash \<Rightarrow> NodeID list option" where
  "dkgSetFor X g round crsv =
     (case getConfigState X g round of
        None \<Rightarrow> Some []
      | Some st \<Rightarrow>
          (case QualifiedNodes st of
             None \<Rightarrow> None
           | Some qualified \<Rightarrow>
               (case nodeIDs X qualified of
                  None \<Rightarrow> None
                | Some ns \<Rightarrow>
                    Some (GetSubSet X (Uint64 (configDKGSetSize X g round)) crsv ns))))"

definition getDKGSet :: "ext \<Rightarrow> GovernanceContract \<Rightarrow> int \<Rightarrow> NodeID list option" where
  "getDKGSet X g round =
     (let crsRound = CRSRound (state g)
      in if round \<le> int (DKGDelayRound X)
         then (case getRoundState X g 0 of
                 None \<Rightarrow> Some []
               | Some st \<Rightarrow>
                   dkgSetFor X g round
                     (((\<lambda>c. Keccak256Hash X (HashBytes c)) ^^ Uint64 round) (CRS st)))
         else if round > crsRound then Some []
         else if round = crsRound then dkgSetFor X g round (CRS (state g))
         else (case getRoundState X g round of
                 None \<Rightarrow> Some []
               | Some st \<Rightarrow> dkgSetFor X g round (CRS st)))"

definition inDKGSet :: "ext \<Rightarrow> GovernanceContract \<Rightarrow> int \<Rightarrow> NodeID \<Rightarrow> bool option" where
  "inDKGSet X g round nodeID =
     (case getDKGSet X g round of
        None \<Rightarrow> None
      | Some dkgSet \<Rightarrow> Some (nodeID \<in> set dkgSet))"

definition clearDKG :: "ext \<Rightarrow> GovernanceContract \<Rightarrow> GovernanceContract option" where
  "clearDKG X g =
     (case getDKGSet X g (evm_Round g) of
        None \<Rightarrow> None
      | Some dkgSet \<Rightarrow>
          (let s1 = ClearDKGMasterPublicKeys (state g);
               s2 = ClearDKGComplaints s1;
               s3 = ClearDKGMPKReady s2 dkgSet;
               s4 = ResetDKGMPKReadysCount s3;
               s5 = ClearDKGFinalized s4 dkgSet;
               s6 = ResetDKGFinalizedsCount s5
           in Some (g\<lparr>state := s6\<rparr>)))"

section \<open>DKG handlers (lines 1292--1477)\<close>

text \<open>
  \<open>round.Uint64() != g.evm.Round.Uint64()+1\<close> is a comparison of 64-bit unsigned
  numbers; the addition wraps.
\<close>

definition isNextRound :: "GovernanceContract \<Rightarrow> int \<Rightarrow> bool" where
  "isNextRound g round = (Uint64 round = (Uint64 (evm_Round g) + 1) mod 2 ^ 64)"

text \<open>\<open>sort.Sort(sortBytes(payloads))\<close> orders the payloads by \<open>bytes.Compare\<close>. A list has
  one ordering by a total order, so the insertion sort below returns what the library
  sort returns.\<close>

fun Less :: "bytes \<Rightarrow> bytes \<Rightarrow> bool" where
  "Less [] [] = False"
| "Less [] (y # ys) = True"
| "Less (x # xs) [] = False"
| "Less (x # xs) (y # ys) = (x < y \<or> (x = y \<and> Less xs ys))"

fun insertBytes :: "bytes \<Rightarrow> bytes list \<Rightarrow> bytes list" where
  "insertBytes p [] = [p]"
| "insertBytes p (q # qs) = (if Less q p then q # insertBytes p qs else p # q # qs)"

definition sortBytes :: "bytes list \<Rightarrow> bytes list" where
  "sortBytes payloads = foldr insertBytes payloads []"

text \<open>\<open>fine\<close> (lines 1791--1813); \<open>Keccak256Hash(payloads...)\<close> hashes the payloads one
  after the other. A panic is no error value: it passes through every caller, which is
  why the callers of \<open>fine\<close> below hand the error \<open>Panic\<close> on as it is.\<close>

definition fine :: "ext \<Rightarrow> GovernanceContract \<Rightarrow> address \<Rightarrow> int \<Rightarrow> bytes list \<Rightarrow> result" where
  "fine X g nodeAddr amount payloads =
     (let sortedPayloads = sortBytes payloads;
          hash = Keccak256Hash X (concat sortedPayloads)
      in if FineRecords (state g) hash then (g, Some errAlreadyFined)
         else (let s1 = SetFineRecords (state g) hash True;
                   nodeOffset = NodesOffsetByAddress s1 nodeAddr
               in if nodeOffset < 0 then (g\<lparr>state := s1\<rparr>, Some errExecutionReverted)
                  else (case Node s1 nodeOffset of
                          None \<Rightarrow> (g\<lparr>state := s1\<rparr>, Some Panic)
                        | Some node \<Rightarrow>
                            (let node' = node\<lparr>Fined := Fined node + amount\<rparr>;
                                 s2 = UpdateNode s1 nodeOffset node'
                             in (g\<lparr>state := s2\<rparr>, None)))))"

text \<open>\<open>GetDKGMasterPublicKeyByProposerID\<close>: the first stored master public key of the
  proposer; a stored key that does not decode is a panic.\<close>

fun findMasterPublicKey :: "ext \<Rightarrow> bytes list \<Rightarrow> NodeID \<Rightarrow> error + SignedMsg" where
  "findMasterPublicKey X [] proposerID = Inl errNotFound"
| "findMasterPublicKey X (mpk # mpks) proposerID =
     (case DecodeMasterPublicKey X mpk of
        None \<Rightarrow> Inl Panic
      | Some x \<Rightarrow> (if ProposerID x = proposerID then Inr x
                   else findMasterPublicKey X mpks proposerID))"

definition GetDKGMasterPublicKeyByProposerID ::
  "ext \<Rightarrow> GovernanceState \<Rightarrow> NodeID \<Rightarrow> error + SignedMsg" where
  "GetDKGMasterPublicKeyByProposerID X s proposerID =
     findMasterPublicKey X (DKGMasterPublicKeys s) proposerID"

text \<open>The part of \<open>addDKGComplaint\<close> after the complaint has been decoded and its proposer
  found in the DKG set (lines 1330--1363).\<close>

definition addDKGComplaintVerified ::
  "ext \<Rightarrow> GovernanceContract \<Rightarrow> bytes \<Rightarrow> Complaint \<Rightarrow> result" where
  "addDKGComplaintVerified X g compl dkgComplaint =
     (if \<not> VerifyDKGComplaintSignature X dkgComplaint then penalize g
      else (case GetDKGMasterPublicKeyByProposerID X (state g)
                   (PrivateShareProposerID dkgComplaint) of
              Inl Panic \<Rightarrow> (g, Some Panic)
            | Inl _ \<Rightarrow> penalize g
            | Inr mpk \<Rightarrow>
                (if VerifyDKGComplaint X dkgComplaint mpk \<noteq> Some True then penalize g
                 else (case NeedPenaltyDKGPrivateShare X dkgComplaint mpk of
                         None \<Rightarrow> penalize g
                       | Some need \<Rightarrow>
                           (let r = (if need
                                     then (let fineValue = FineValue (state g) 0;
                                               offset = NodesOffsetByNodeKeyAddress (state g)
                                                 (idToAddress (PrivateShareProposerID dkgComplaint))
                                           in case Node (state g) offset of
                                                None \<Rightarrow> (g, Some Panic)
                                              | Some node \<Rightarrow>
                                                  fine X g (nodeInfo.Owner node) fineValue
                                                    [compl, []])
                                     else (g, None))
                            in (case r of
                                  (g1, Some e) \<Rightarrow>
                                    (if e = Panic then (g1, Some Panic) else penalize g1)
                                | (g1, None) \<Rightarrow>
                                    useGas (g1\<lparr>state := PushDKGComplaint (state g1) compl\<rparr>)
                                      5000000))))))"

definition addDKGComplaint :: "ext \<Rightarrow> GovernanceContract \<Rightarrow> int \<Rightarrow> bytes \<Rightarrow> result" where
  "addDKGComplaint X g round compl =
     (if \<not> isNextRound g round then (g, Some errExecutionReverted)
      else (let caller = contract_Caller g;
                offset = NodesOffsetByNodeKeyAddress (state g) caller
            in if offset < 0 then (g, Some errExecutionReverted)
               else if DKGFinalized (state g) caller then penalize g
               else (let threshold = 2 * (DKGSetSize (state g) div 3)
                     in if DKGFinalizedsCount (state g) > threshold
                        then (g, Some errExecutionReverted)
                        else (case DecodeComplaint X compl of
                                None \<Rightarrow> penalize g
                              | Some dkgComplaint \<Rightarrow>
                                  (case inDKGSet X g round (ProposerID dkgComplaint) of
                                     None \<Rightarrow> (g, Some Panic)
                                   | Some False \<Rightarrow> penalize g
                                   | Some True \<Rightarrow>
                                       addDKGComplaintVerified X g compl dkgComplaint)))))"

text \<open>\<open>addDKGMasterPublicKey\<close>: first the reset on the first submission for a new round
  (lines 1371--1375), then the submission itself (lines 1377--1416).\<close>

definition clearDKGForNextRound :: "ext \<Rightarrow> GovernanceContract \<Rightarrow> int \<Rightarrow> GovernanceContract option" where
  "clearDKGForNextRound X g round =
     (if DKGRound (state g) = evm_Round g
      then (case clearDKG X g of
              None \<Rightarrow> None
            | Some g1 \<Rightarrow> Some (g1\<lparr>state := SetDKGRound (state g1) round\<rparr>))
      else Some g)"

definition submitDKGMasterPublicKey :: "ext \<Rightarrow> GovernanceContract \<Rightarrow> int \<Rightarrow> bytes \<Rightarrow> result" where
  "submitDKGMasterPublicKey X g round mpk =
     (let caller = contract_Caller g;
          offset = NodesOffsetByNodeKeyAddress (state g) caller
      in if offset < 0 then (g, Some errExecutionReverted)
         else if DKGMPKReady (state g) caller then penalize g
         else (let threshold = 2 * (DKGSetSize (state g) div 3)
               in if DKGMPKReadysCount (state g) > threshold
                  then (g, Some errExecutionReverted)
                  else (case DecodeMasterPublicKey X mpk of
                          None \<Rightarrow> penalize g
                        | Some dkgMasterPK \<Rightarrow>
                            (case inDKGSet X g round (ProposerID dkgMasterPK) of
                               None \<Rightarrow> (g, Some Panic)
                             | Some False \<Rightarrow> penalize g
                             | Some True \<Rightarrow>
                                 (if \<not> VerifyDKGMasterPublicKeySignature X dkgMasterPK
                                  then penalize g
                                  else useGas (g\<lparr>state := PushDKGMasterPublicKey (state g) mpk\<rparr>)
                                         100000)))))"

definition addDKGMasterPublicKey :: "ext \<Rightarrow> GovernanceContract \<Rightarrow> int \<Rightarrow> bytes \<Rightarrow> result" where
  "addDKGMasterPublicKey X g round mpk =
     (if \<not> isNextRound g round then (g, Some errExecutionReverted)
      else (case clearDKGForNextRound X g round of
              None \<Rightarrow> (g, Some Panic)
            | Some g1 \<Rightarrow> submitDKGMasterPublicKey X g1 round mpk))"

definition addDKGMPKReady :: "ext \<Rightarrow> GovernanceContract \<Rightarrow> int \<Rightarrow> bytes \<Rightarrow> result" where
  "addDKGMPKReady X g round ready =
     (if \<not> isNextRound g round then (g, Some errExecutionReverted)
      else (let caller = contract_Caller g
            in case DecodeMPKReady X ready of
                 None \<Rightarrow> penalize g
               | Some dkgReadyMsg \<Rightarrow>
                   (case inDKGSet X g round (ProposerID dkgReadyMsg) of
                      None \<Rightarrow> (g, Some Panic)
                    | Some False \<Rightarrow> penalize g
                    | Some True \<Rightarrow>
                        (if \<not> VerifyDKGMPKReadySignature X dkgReadyMsg then penalize g
                         else (let s1 = (if \<not> DKGMPKReady (state g) caller
                                         then IncDKGMPKReadysCount
                                                (PutDKGMPKReady (state g) caller True)
                                         else state g)
                               in useGas (g\<lparr>state := s1\<rparr>) 100000)))))"

definition addDKGFinalize :: "ext \<Rightarrow> GovernanceContract \<Rightarrow> int \<Rightarrow> bytes \<Rightarrow> result" where
  "addDKGFinalize X g round finalize =
     (if \<not> isNextRound g round then (g, Some errExecutionReverted)
      else (let caller = contract_Caller g
            in case DecodeFinalize X finalize of
                 None \<Rightarrow> penalize g
               | Some dkgFinalize \<Rightarrow>
                   (case inDKGSet X g round (ProposerID dkgFinalize) of
                      None \<Rightarrow> (g, Some Panic)
                    | Some False \<Rightarrow> penalize g
                    | Some True \<Rightarrow>
                        (if \<not> VerifyDKGFinalizeSignature X dkgFinalize then penalize g
                         else (let s1 = (if \<not> DKGFinalized (state g) caller
                                         then IncDKGFinalizedsCount
                                                (PutDKGFinalized (state g) caller True)
                                         else state g)
                               in useGas (g\<lparr>state := s1\<rparr>) 100000)))))"

section \<open>Staking handlers (lines 1479--1735)\<close>

definition delegate :: "GovernanceContract \<Rightarrow> address \<Rightarrow> result" where
  "delegate g nodeAddr =
     (let offset = NodesOffsetByAddress (state g) nodeAddr
      in if offset < 0 then (g, Some errExecutionReverted)
         else (let caller = contract_Caller g;
                   val = contract_Value g
               in if val = 0 then (g, Some errExecutionReverted)
                  else (let delegatorOffset = DelegatorsOffset (state g) nodeAddr caller
                        in if delegatorOffset \<ge> 0 then (g, Some errExecutionReverted)
                           else (case Node (state g) offset of
                                   None \<Rightarrow> (g, Some Panic)
                                 | Some node \<Rightarrow>
                                (let node' = node\<lparr>Staked := Staked node + contract_Value g\<rparr>;
                                     s1 = UpdateNode (state g) offset node';
                                     s2 = IncTotalStaked s1 (contract_Value g);
                                     offset' = LenDelegators s2 nodeAddr;
                                     s3 = PushDelegator s2 nodeAddr
                                            \<lparr>Owner = caller, Value = val, UndelegatedAt = 0\<rparr>;
                                     s4 = PutDelegatorOffset s3 nodeAddr caller offset'
                                 in useGas (g\<lparr>state := s4\<rparr>) 200000)))))"

definition stake ::
  "ext \<Rightarrow> GovernanceContract \<Rightarrow> bytes \<Rightarrow> string \<Rightarrow> string \<Rightarrow> string \<Rightarrow> string \<Rightarrow> result" where
  "stake X g publicKey name email location url =
     (if length name \<ge> 32 \<or> length email \<ge> 32 \<or> length location \<ge> 32 \<or> length url \<ge> 128
      then penalize g
      else (let caller = contract_Caller g;
                offset = NodesOffsetByAddress (state g) caller
            in if offset \<ge> 0 then (g, Some errExecutionReverted)
               else (let offset' = LenNodes (state g);
                         node = \<lparr>nodeInfo.Owner = caller, PublicKey = publicKey, Staked = 0,
                                 Fined = 0, Name = name, Email = email, Location = location,
                                 Url = url\<rparr>;
                         s1 = PushNode (state g) node
                     in case PutNodeOffsets X s1 node offset' of
                          None \<Rightarrow> penalize (g\<lparr>state := s1\<rparr>)
                        | Some s2 \<Rightarrow>
                            (if contract_Value g > 0
                             then (case delegate (g\<lparr>state := s2\<rparr>) caller of
                                     (g3, Some e) \<Rightarrow> (g3, Some e)
                                   | (g3, None) \<Rightarrow> useGas g3 100000)
                             else useGas (g\<lparr>state := s2\<rparr>) 100000))))"

definition undelegateHelper :: "GovernanceContract \<Rightarrow> address \<Rightarrow> address \<Rightarrow> result" where
  "undelegateHelper g nodeAddr caller =
     (let nodeOffset = NodesOffsetByAddress (state g) nodeAddr
      in if nodeOffset < 0 then (g, Some errExecutionReverted)
         else (let offset = DelegatorsOffset (state g) nodeAddr caller
               in if offset < 0 then (g, Some errExecutionReverted)
                  else (case Node (state g) nodeOffset of
                          None \<Rightarrow> (g, Some Panic)
                        | Some node \<Rightarrow>
                           if Fined node > 0 then (g, Some errExecutionReverted)
                           else (let delegator = Delegator (state g) nodeAddr offset
                                 in if UndelegatedAt delegator \<noteq> 0
                                    then (g, Some errExecutionReverted)
                                    else (let delegator' =
                                                delegator\<lparr>UndelegatedAt := evm_Time g\<rparr>;
                                              s1 = UpdateDelegator (state g) nodeAddr offset
                                                     delegator';
                                              node' = node\<lparr>Staked :=
                                                        Staked node - Value delegator'\<rparr>;
                                              s2 = UpdateNode s1 nodeOffset node';
                                              s3 = DecTotalStaked s2 (Value delegator')
                                          in useGas (g\<lparr>state := s3\<rparr>) 100000)))))"

definition undelegate :: "GovernanceContract \<Rightarrow> address \<Rightarrow> result" where
  "undelegate g nodeAddr = undelegateHelper g nodeAddr (contract_Caller g)"

text \<open>
  \<open>withdraw\<close> in three parts: the block that deletes the delegator row of the caller
  (lines 1641--1651), the block that removes the node once its last delegator has left
  (lines 1661--1676), and the handler. The \<open>offset\<close> that the second block compares with
  the last index and writes to is the variable declared at line 1624, the offset of the
  caller in the delegator array.
\<close>

definition withdrawDeleteDelegator ::
  "GovernanceState \<Rightarrow> address \<Rightarrow> address \<Rightarrow> int \<Rightarrow> GovernanceState" where
  "withdrawDeleteDelegator s nodeAddr who offset =
     (let len = LenDelegators s nodeAddr;
          lastIndex = len - 1;
          s1 = (if offset \<noteq> lastIndex
                then (let lastNode = Delegator s nodeAddr lastIndex;
                          s0 = UpdateDelegator s nodeAddr offset lastNode
                      in PutDelegatorOffset s0 nodeAddr (Owner lastNode) offset)
                else s);
          s2 = DeleteDelegatorsOffset s1 nodeAddr who
      in PopLastDelegator s2 nodeAddr)"

definition withdrawRemoveNode :: "ext \<Rightarrow> GovernanceContract \<Rightarrow> address \<Rightarrow> int \<Rightarrow> result" where
  "withdrawRemoveNode X g nodeAddr offset =
     (let len = LenNodes (state g);
          lastIndex = len - 1;
          r = (if offset \<noteq> lastIndex
               then (case Node (state g) lastIndex of
                       None \<Rightarrow> None
                     | Some lastNode \<Rightarrow>
                         (let s1 = UpdateNode (state g) offset lastNode
                          in PutNodeOffsets X s1 lastNode offset))
               else Some (state g))
      in case r of
           None \<Rightarrow> (g, Some Panic)
         | Some s2 \<Rightarrow>
             (let s3 = DeleteNodesOffsetByAddress s2 nodeAddr;
                  s4 = PopLastNode s3
              in useGas (g\<lparr>state := s4\<rparr>) 100000))"

definition withdraw :: "ext \<Rightarrow> GovernanceContract \<Rightarrow> address \<Rightarrow> result" where
  "withdraw X g nodeAddr =
     (let who = contract_Caller g;
          nodeOffset = NodesOffsetByAddress (state g) nodeAddr
      in if nodeOffset < 0 then (g, Some errExecutionReverted)
         else (let offset = DelegatorsOffset (state g) nodeAddr who
               in if offset < 0 then (g, Some errExecutionReverted)
                  else (let delegator = Delegator (state g) nodeAddr offset
                        in if UndelegatedAt delegator = 0 then penalize g
                           else (let unlockTime = UndelegatedAt delegator + LockupPeriod (state g)
                                 in if evm_Time g \<le> unlockTime then penalize g
                                    else (let s3 = withdrawDeleteDelegator (state g) nodeAddr
                                                     who offset
                                          in case transfer (g\<lparr>state := s3\<rparr>)
                                                    (GovernanceContractAddress X)
                                                    (Owner delegator) (Value delegator) of
                                               (g1, False) \<Rightarrow> (g1, Some errExecutionReverted)
                                             | (g1, True) \<Rightarrow>
                                                 (if LenDelegators (state g1) nodeAddr = 0
                                                  then withdrawRemoveNode X g1 nodeAddr offset
                                                  else useGas g1 100000))))))"

text \<open>The loop of \<open>unstake\<close>: \<open>i\<close> runs from the last delegator down to 0.\<close>

function unstakeLoop :: "GovernanceContract \<Rightarrow> address \<Rightarrow> int \<Rightarrow> result" where
  "unstakeLoop g caller i =
     (if i \<ge> 0
      then (let delegator = Delegator (state g) caller i
            in case undelegateHelper g caller (Owner delegator) of
                 (g1, Some e) \<Rightarrow> (g1, Some e)
               | (g1, None) \<Rightarrow> unstakeLoop g1 caller (i - 1))
      else (g, None))"
  by pat_completeness auto
termination
  by (relation "measure (\<lambda>(g, caller, i). nat (i + 1))") auto

definition unstake :: "GovernanceContract \<Rightarrow> result" where
  "unstake g =
     (let caller = contract_Caller g;
          offset = NodesOffsetByAddress (state g) caller
      in if offset < 0 then (g, Some errExecutionReverted)
         else (case Node (state g) offset of
                 None \<Rightarrow> (g, Some Panic)
               | Some node \<Rightarrow>
                  if Fined node > 0 then (g, Some errExecutionReverted)
                  else (let lenDelegators = LenDelegators (state g) caller;
                            i = lenDelegators - 1
                        in case unstakeLoop g caller i of
                             (g1, Some e) \<Rightarrow> (g1, Some e)
                           | (g1, None) \<Rightarrow> useGas g1 100000)))"

section \<open>Misbehaviour reports (lines 1815--1862)\<close>

definition ReportTypeInvalidDKG :: nat where "ReportTypeInvalidDKG = 0"



section \<open>Calls as the host applies them\<close>

text \<open>
  Modelled from the spec: the virtual machine that invokes a handler is outside the
  file. A call runs with its own caller, attached value, time and gas; every handler
  either completes and commits all of its state writes, or signals a failure, and then
  every write performed during the call is discarded; gas spent stays spent.
\<close>

datatype invocation =
    Stake bytes string string string string
  | Delegate address
  | Undelegate address
  | Withdraw address
  | Unstake

record call =
  caller :: address
  callValue :: int
  time :: int
  gas :: nat
  called :: invocation

fun Run :: "ext \<Rightarrow> GovernanceContract \<Rightarrow> invocation \<Rightarrow> result" where
  "Run X g (Stake publicKey name email location url) = stake X g publicKey name email location url"
| "Run X g (Delegate nodeAddr) = delegate g nodeAddr"
| "Run X g (Undelegate nodeAddr) = undelegate g nodeAddr"
| "Run X g (Withdraw nodeAddr) = withdraw X g nodeAddr"
| "Run X g Unstake = unstake g"

definition commit :: "GovernanceContract \<Rightarrow> result \<Rightarrow> GovernanceContract" where
  "commit g r =
     (case r of
        (g1, None) \<Rightarrow> g1
      | (g1, Some e) \<Rightarrow> g1\<lparr>state := state g, balance := balance g\<rparr>)"

definition apply_call :: "ext \<Rightarrow> GovernanceContract \<Rightarrow> call \<Rightarrow> GovernanceContract" where
  "apply_call X g c =
     (let g0 = g\<lparr>contract_Caller := caller c, contract_Value := callValue c,
                 evm_Time := time c, contract_Gas := gas c\<rparr>
      in commit g0 (Run X g0 (called c)))"

definition apply_calls :: "ext \<Rightarrow> GovernanceContract \<Rightarrow> call list \<Rightarrow> GovernanceContract" where
  "apply_calls X g cs = foldl (apply_call X) g cs"

section \<open>A concrete environment\<close>

text \<open>
  The initial storage (every word 0) and a small instance of the collaborators, used to
  run the handlers on concrete calls: a public key is any non-empty byte string, its
  address and node identifier are 100 plus its length, the sampling takes the first
  members of the population, the only historical state is the initial one at height 0,
  a signed artifact is decoded from a non-empty byte string whose first byte gives the
  proposer, and every signature on a decoded artifact verifies.
\<close>

definition emptyDelegator :: delegatorInfo where
  "emptyDelegator = \<lparr>Owner = 0, Value = 0, UndelegatedAt = 0\<rparr>"

definition emptyState :: GovernanceState where
  "emptyState =
     \<lparr>roundHeight = (\<lambda>r. 0), totalStaked = 0, nodesLength = 0, nodes = (\<lambda>i. emptyNode),
      nodesOffsetByAddress = (\<lambda>a. 0), nodesOffsetByNodeKeyAddress = (\<lambda>a. 0),
      delegatorsLength = (\<lambda>a. 0), delegators = (\<lambda>a i. emptyDelegator),
      delegatorsOffset = (\<lambda>a b. 0), crsRound = 0, crs = 0, dkgRound = 0,
      dkgMasterPublicKeys = [], dkgComplaints = [], dkgReady = (\<lambda>a. 0), dkgReadysCount = 0,
      dkgFinalized = (\<lambda>a. 0), dkgFinalizedsCount = 0, minStake = 0, lockupPeriod = 0,
      dkgSetSize = 0, fineValues = (\<lambda>i. 0), finedRecords = (\<lambda>h. 0)\<rparr>"

definition decodeMsg :: "bytes \<Rightarrow> SignedMsg option" where
  "decodeMsg b = (case b of [] \<Rightarrow> None | x # xs \<Rightarrow> Some \<lparr>ProposerID = ucast x, Content = xs\<rparr>)"

definition ext0 :: "GovernanceState \<Rightarrow> ext" where
  "ext0 genesis =
     \<lparr>GovernanceContractAddress = 99, DKGDelayRound = 1, ConfigRoundShift = 2,
      Keccak256Hash = (\<lambda>b. of_nat (length b)),
      UnmarshalPubkey = (\<lambda>pk. if pk = [] then None else Some pk),
      PubkeyToAddress = (\<lambda>pk. of_nat (100 + length pk)),
      NewNodeID = (\<lambda>pk. if pk = [] then None else Some (of_nat (100 + length pk))),
      GetSubSet = (\<lambda>n c ns. take n ns),
      StateAtNumber = (\<lambda>h. if h = 0 then Some genesis else None),
      DecodeMasterPublicKey = decodeMsg,
      DecodeComplaint = (\<lambda>b. None),
      DecodeMPKReady = decodeMsg,
      DecodeFinalize = decodeMsg,
      DecodeVote = decodeMsg,
      DecodeBlock = decodeMsg,
      VerifyDKGMasterPublicKeySignature = (\<lambda>m. True),
      VerifyDKGComplaintSignature = (\<lambda>c. True),
      VerifyDKGMPKReadySignature = (\<lambda>m. True),
      VerifyDKGFinalizeSignature = (\<lambda>m. True),
      VerifyDKGComplaint = (\<lambda>c m. Some True),
      NeedPenaltyDKGPrivateShare = (\<lambda>c m. Some False),
      NeedPenaltyForkVote = (\<lambda>v w. Some (ProposerID v = ProposerID w \<and> Content v \<noteq> Content w)),
      NeedPenaltyForkBlock = (\<lambda>v w. Some (ProposerID v = ProposerID w \<and> Content v \<noteq> Content w))\<rparr>"

definition contract0 :: "GovernanceState \<Rightarrow> GovernanceContract" where
  "contract0 s =
     \<lparr>evm_Round = 0, evm_Time = 0, contract_Caller = 0, contract_Value = 0,
      contract_Gas = 0, state = s, balance = (\<lambda>a. 0)\<rparr>"

text \<open>The next call: made by \<open>a\<close> with \<open>n\<close> units of gas.\<close>

definition callAs :: "GovernanceContract \<Rightarrow> address \<Rightarrow> nat \<Rightarrow> GovernanceContract" where
  "callAs g a n = g\<lparr>contract_Caller := a, contract_Gas := n\<rparr>"

text \<open>
  A state with four nodes. Node \<open>k\<close> (1 to 4) is owned by the address \<open>k\<close>, has a public
  key of \<open>k\<close> bytes (so its node key address is \<open>100 + k\<close>), and is staked with 10 by its
  owner; the minimum stake is 10 and the DKG set size is 4.
\<close>

definition genesisNode :: "nat \<Rightarrow> nodeInfo" where
  "genesisNode k = \<lparr>nodeInfo.Owner = of_nat k, PublicKey = replicate k 4, Staked = 10,
     Fined = 0, Name = [], Email = [], Location = [], Url = []\<rparr>"

definition genesis4 :: GovernanceState where
  "genesis4 = emptyState
     \<lparr>totalStaked := 40, nodesLength := 4,
      nodes := (\<lambda>i. if 0 \<le> i \<and> i < 4 then genesisNode (nat (i + 1)) else emptyNode),
      nodesOffsetByAddress := (\<lambda>a. if 1 \<le> a \<and> a \<le> 4 then uint a else 0),
      nodesOffsetByNodeKeyAddress := (\<lambda>a. if 101 \<le> a \<and> a \<le> 104 then uint a - 100 else 0),
      delegatorsLength := (\<lambda>a. if 1 \<le> a \<and> a \<le> 4 then 1 else 0),
      delegators := (\<lambda>a i. if 1 \<le> a \<and> a \<le> 4 \<and> i = 0
                            then \<lparr>Owner = a, Value = 10, UndelegatedAt = 0\<rparr>
                            else emptyDelegator),
      delegatorsOffset := (\<lambda>a b. if 1 \<le> a \<and> a \<le> 4 \<and> b = a then 1 else 0),
      minStake := 10, dkgSetSize := 4\<rparr>"

text \<open>
  A complaint for round 1, sent in round 0 by the node key address 104 with gas, in the
  four-node state with DKG set size \<open>n\<close> and \<open>c\<close> members already finalized.
\<close>

definition complaintCall :: "int \<Rightarrow> int \<Rightarrow> GovernanceContract" where
  "complaintCall n c =
     callAs (contract0 (genesis4\<lparr>dkgSetSize := n, dkgFinalizedsCount := c\<rparr>)) 104 1000000"

text \<open>
  A master public key for round 1, sent in round 0 by the node key address 104 with gas,
  when the DKG round is 1 already, \<open>ready\<close> members are marked MPK-ready and \<open>fin\<close>
  members are finalized.
\<close>

definition mpkCall :: "int \<Rightarrow> int \<Rightarrow> GovernanceContract" where
  "mpkCall ready fin =
     callAs (contract0 (genesis4\<lparr>dkgRound := 1, dkgReadysCount := ready,
                                  dkgFinalizedsCount := fin\<rparr>)) 104 1000000"

text \<open>
  The first master public key for round 2, sent in round 1 by the node key address 104.
  The DKG round is still 1, the CRS of round 2 is known, and the address 200, which is
  no member of the DKG set, is marked MPK-ready and finalized (it has relayed the ready
  and finalize messages of a member: \<open>addDKGMPKReady\<close> and \<open>addDKGFinalize\<close> mark the
  caller).
\<close>

definition relayState :: GovernanceState where
  "relayState = genesis4
     \<lparr>crsRound := 2, dkgRound := 1,
      dkgReady := (\<lambda>a. if a = 200 then 1 else 0), dkgReadysCount := 1,
      dkgFinalized := (\<lambda>a. if a = 200 then 1 else 0), dkgFinalizedsCount := 1\<rparr>"

definition firstMPKCall :: GovernanceContract where
  "firstMPKCall = callAs ((contract0 relayState)\<lparr>evm_Round := 1\<rparr>) 104 1000000"


text \<open>
  A withdrawal at time \<open>t\<close>. In the four-node state with a lockup period of 1000, the
  address 5 holds the second delegator row of node 1, with value 10, undelegated at time
  5000; it calls \<open>withdraw\<close> for node 1 with gas, and the governance account (address 99)
  holds 50.
\<close>

definition lockupState :: GovernanceState where
  "lockupState = genesis4
     \<lparr>delegatorsLength := (delegatorsLength genesis4)(1 := 2),
      delegators := (delegators genesis4)
        (1 := (delegators genesis4 1)(1 := \<lparr>Owner = 5, Value = 10, UndelegatedAt = 5000\<rparr>)),
      delegatorsOffset := (delegatorsOffset genesis4)(1 := (delegatorsOffset genesis4 1)(5 := 2)),
      lockupPeriod := 1000\<rparr>"

definition withdrawCall :: "int \<Rightarrow> GovernanceContract" where
  "withdrawCall t =
     (callAs (contract0 lockupState) 5 1000000)
       \<lparr>evm_Time := t, balance := (\<lambda>a. if a = 99 then 50 else 0)\<rparr>"

text \<open>
  A withdrawal at time \<open>t\<close> by the owner of node 1, who holds the first delegator row
  and has undelegated at time 5000, while the address 5 in the second row is still
  delegated. The lockup period is 1000 and the governance account holds 50.
\<close>

definition ownerLeftState :: GovernanceState where
  "ownerLeftState = lockupState
     \<lparr>delegators := (delegators genesis4)
        (1 := (delegators genesis4 1)
           (0 := \<lparr>Owner = 1, Value = 10, UndelegatedAt = 5000\<rparr>,
            1 := \<lparr>Owner = 5, Value = 10, UndelegatedAt = 0\<rparr>))\<rparr>"

definition ownerWithdrawCall :: "int \<Rightarrow> GovernanceContract" where
  "ownerWithdrawCall t =
     (callAs (contract0 ownerLeftState) 1 1000000)
       \<lparr>evm_Time := t, balance := (\<lambda>a. if a = 99 then 50 else 0)\<rparr>"

text \<open>
  An \<open>unstake\<close> at time 6000 by the owner of node 1: in \<open>lockupState\<close>, where the second
  delegator of node 1 has undelegated already, and in the four-node state, where the
  owner is the only delegator.
\<close>

definition unstakeCall :: "GovernanceState \<Rightarrow> GovernanceContract" where
  "unstakeCall s = (callAs (contract0 s) 1 1000000)\<lparr>evm_Time := 6000\<rparr>"

(*THEOREMS*)

section \<open>Properties of the storage encoding layer\<close>

lemma natBytes_numeral:
  "natBytes (numeral k) = natBytes (numeral k div 256) @ [of_nat (numeral k mod 256)]"
  by (subst natBytes.simps) simp

lemma natBytes_zero: "natBytes 0 = []"
  by (subst natBytes.simps) simp

lemma replicate_num: "replicate (numeral k) x = x # replicate (pred_numeral k) x"
  by (simp add: numeral_eq_Suc)

text \<open>Big-endian numbers: \<open>SetBytes\<close>, \<open>Bytes\<close> and the bytes of a word.\<close>

lemma SetBytes_snoc: "SetBytes (bs @ [x]) = SetBytes bs * 256 + uint x"
  by (simp add: SetBytes_def)

lemma SetBytes_Nil: "SetBytes [] = 0"
  by (simp add: SetBytes_def)

lemma SetBytes_bounds: "0 \<le> SetBytes bs \<and> SetBytes bs < 256 ^ length bs"
proof (induction bs rule: rev_induct)
  case Nil
  show ?case by (simp add: SetBytes_Nil)
next
  case (snoc x xs)
  define P :: int where "P = 256 ^ length xs"
  have ih: "0 \<le> SetBytes xs" "SetBytes xs < P" using snoc by (simp_all add: P_def)
  have ux: "0 \<le> uint x" "uint x < 256" using uint_bounded[of x] by simp_all
  have "SetBytes xs * 256 + uint x < P * 256" using ih ux by linarith
  moreover have "0 \<le> SetBytes xs * 256 + uint x" using ih ux by linarith
  moreover have "(256::int) ^ length (xs @ [x]) = P * 256" by (simp add: P_def)
  ultimately show ?case by (simp only: SetBytes_snoc)
qed

lemma SetBytes_zero: "SetBytes bs = 0 \<Longrightarrow> \<forall>b\<in>set bs. b = 0"
proof (induction bs rule: rev_induct)
  case Nil
  show ?case by simp
next
  case (snoc x xs)
  have a: "0 \<le> SetBytes xs" "0 \<le> uint x" using SetBytes_bounds[of xs] by simp_all
  from snoc.prems have "SetBytes xs * 256 + uint x = 0" by (simp add: SetBytes_snoc)
  with a have "SetBytes xs = 0" "uint x = 0" by linarith+
  then show ?case using snoc.IH by (auto simp: uint_0_iff)
qed

lemma natBytes_snoc:
  assumes "0 \<le> s" "s * 256 + uint (x::byte) \<noteq> 0"
  shows "natBytes (nat (s * 256 + uint x)) = natBytes (nat s) @ [x]"
proof -
  have b: "0 \<le> uint x" "uint x < 256" using uint_bounded[of x] by simp_all
  let ?n = "nat (s * 256 + uint x)"
  have n0: "?n \<noteq> 0" using assms b by linarith
  have n: "?n = nat s * 256 + unat x"
    using assms(1) by (simp add: nat_add_distrib nat_mult_distrib)
  have "unat x < 2 ^ LENGTH(8)" by (rule unsigned_less)
  then have ux: "unat x < 256" by simp
  have d: "?n div 256 = nat s" and m: "?n mod 256 = unat x"
    using ux by (simp_all add: n)
  have "natBytes ?n = natBytes (?n div 256) @ [of_nat (?n mod 256)]"
    using n0 by (subst natBytes.simps) (simp del: natBytes.simps)
  then show ?thesis by (simp add: d m del: natBytes.simps)
qed

lemma Bytes_SetBytes: "Bytes (SetBytes bs) = dropWhile (\<lambda>b. b = 0) bs"
proof (induction bs rule: rev_induct)
  case Nil
  have "natBytes 0 = []" by (subst natBytes.simps) simp
  then show ?case by (simp add: Bytes_def SetBytes_Nil del: natBytes.simps)
next
  case (snoc x xs)
  have nn: "0 \<le> SetBytes xs" using SetBytes_bounds[of xs] by simp
  have ih: "natBytes (nat (SetBytes xs)) = dropWhile (\<lambda>b. b = 0) xs"
    using snoc nn by (simp add: Bytes_def del: natBytes.simps)
  show ?case
  proof (cases "SetBytes xs * 256 + uint x = 0")
    case True
    have "0 \<le> uint x" by simp
    with True nn have z: "SetBytes xs = 0" "uint x = 0" by linarith+
    then have "\<forall>b\<in>set xs. b = 0" "x = 0" using SetBytes_zero by (auto simp: uint_0_iff)
    moreover have "natBytes 0 = []" by (subst natBytes.simps) simp
    ultimately show ?thesis using True by (simp add: Bytes_def SetBytes_snoc del: natBytes.simps)
  next
    case False
    have pos: "0 \<le> SetBytes xs * 256 + uint x" using nn by simp
    have "Bytes (SetBytes (xs @ [x])) = natBytes (nat (SetBytes xs)) @ [x]"
      using natBytes_snoc[OF nn False] pos
      by (simp add: Bytes_def SetBytes_snoc del: natBytes.simps)
    also have "\<dots> = dropWhile (\<lambda>b. b = 0) (xs @ [x])"
    proof (cases "\<forall>b\<in>set xs. b = 0")
      case True
      then have "SetBytes xs = 0"
        by (induction xs rule: rev_induct) (simp_all add: SetBytes_Nil SetBytes_snoc)
      with False have "x \<noteq> 0" by auto
      moreover have "natBytes 0 = []" by (subst natBytes.simps) simp
      ultimately show ?thesis
        using True \<open>SetBytes xs = 0\<close> by (simp add: dropWhile_append del: natBytes.simps)
    next
      case False
      then show ?thesis by (auto simp: ih dropWhile_append simp del: natBytes.simps)
    qed
    finally show ?thesis .
  qed
qed

lemma uint_byte_at:
  "uint (ucast (drop_bit k (h::hash)) :: byte) = (uint h div 2 ^ k) mod 256"
proof -
  have "uint (ucast (drop_bit k h) :: byte) = take_bit 8 (uint (drop_bit k h))"
    by (simp add: unsigned_ucast_eq)
  also have "uint (drop_bit k h) = drop_bit k (uint h)"
  proof -
    have "take_bit 256 (uint h) = uint h"
      using uint_bounded[of h] by (simp add: take_bit_eq_mod)
    then show ?thesis by (simp add: unsigned_drop_bit_eq)
  qed
  finally show ?thesis by (simp add: take_bit_eq_mod drop_bit_eq_div)
qed

lemma SetBytes_HashBytes_prefix:
  "n \<le> 32 \<Longrightarrow>
   SetBytes (map (\<lambda>i. ucast (drop_bit (8 * (31 - i)) (h::hash)) :: byte) [0..<n]) =
   uint h div 2 ^ (8 * (32 - n))"
proof (induction n)
  case 0
  have "uint h < 2 ^ 256" using uint_bounded[of h] by simp
  then show ?case by (simp add: SetBytes_Nil div_pos_pos_trivial)
next
  case (Suc n)
  define D where "D = uint h div 2 ^ (8 * (31 - n))"
  have e: "8 * (32 - n) = 8 * (31 - n) + 8" using Suc.prems by simp
  have "uint h div 2 ^ (8 * (32 - n)) = D div 256"
    unfolding e power_add D_def by (simp add: zdiv_zmult2_eq)
  then have ih: "SetBytes (map (\<lambda>i. ucast (drop_bit (8 * (31 - i)) h) :: byte) [0..<n]) = D div 256"
    using Suc by simp
  have "SetBytes (map (\<lambda>i. ucast (drop_bit (8 * (31 - i)) h) :: byte) [0..<Suc n]) =
        D div 256 * 256 + D mod 256"
    by (simp add: SetBytes_snoc ih uint_byte_at D_def)
  also have "\<dots> = D" by simp
  finally show ?case by (simp add: D_def)
qed

lemma SetBytes_HashBytes: "SetBytes (HashBytes h) = uint h"
  using SetBytes_HashBytes_prefix[of 32 h] by (simp add: HashBytes_def)

lemma SetBytes_HashBytes_BytesToHash:
  assumes "length bs = 32"
  shows "SetBytes (HashBytes (BytesToHash bs)) = SetBytes bs"
proof -
  have "0 \<le> SetBytes bs" "SetBytes bs < 2 ^ 256"
    using SetBytes_bounds[of bs] assms by simp_all
  then show ?thesis
    using assms by (simp add: SetBytes_HashBytes BytesToHash_def uint_word_of_int)
qed

text \<open>
  The short form. \<open>writeBytes\<close> stores the data, zero bytes up to 31 and twice the
  length; \<open>readBytes\<close> finds the length in the last byte and cuts that many bytes from
  \<open>rawLength.Bytes()\<close>, the word without its leading zero bytes.
\<close>

lemma SetBytes_zeros: "SetBytes (replicate n 0) = 0"
proof (induction n)
  case 0
  show ?case by (simp add: SetBytes_Nil)
next
  case (Suc n)
  have "replicate (Suc n) (0::byte) = replicate n 0 @ [0]" by (simp add: replicate_append_same)
  then show ?case using Suc by (simp only: SetBytes_snoc) simp
qed

lemma writeBytes_short:
  assumes "length data < 32"
  shows "writeBytes K s loc data =
         setState s (BigToHash loc) (BytesToHash (padRight 31 data @ [of_nat (length data * 2)]))"
proof (cases "data = []")
  case True
  have "BytesToHash (padRight 31 [] @ [0]) = 0"
    by (simp add: BytesToHash_def padRight_def SetBytes_snoc SetBytes_zeros)
  then show ?thesis using True by (simp add: writeBytes_def)
next
  case False
  then show ?thesis using assms by (simp add: writeBytes_def Let_def)
qed

lemma readBytes_writeBytes_short:
  assumes "length data < 32"
  shows "readBytes K (writeBytes K s loc data) loc =
         sliceTo (dropWhile (\<lambda>b. b = 0) (padRight 31 data @ [of_nat (length data * 2)]))
           (length data)"
proof -
  define c :: byte where "c = of_nat (length data * 2)"
  define w where "w = padRight 31 data @ [c]"
  define R where "R = SetBytes w"
  have lw: "length w = 32" using assms by (simp add: w_def padRight_def)
  have raw: "getStateBigInt (writeBytes K s loc data) loc = R"
    using SetBytes_HashBytes_BytesToHash[OF lw]
    by (simp add: writeBytes_short[OF assms] getStateBigInt_def getState_def setState_def
        w_def R_def c_def)
  have "unat c = (length data * 2) mod 2 ^ LENGTH(8)"
    unfolding c_def by (rule unat_of_nat)
  moreover have "(length data * 2) mod 2 ^ LENGTH(8) = length data * 2"
    using assms by simp
  ultimately have "unat c = length data * 2"
    by (simp only:)
  then have lb: "uint c = int (length data) * 2"
    by (simp add: uint_nat)
  have Rm: "R mod 256 = int (length data) * 2"
    using assms by (simp add: R_def w_def SetBytes_snoc lb)
  have len: "Uint64 (R mod 256 div 2) = length data"
    using assms by (simp add: Rm Uint64_def)
  have ev: "R mod 256 mod 2 = 0" by (simp add: Rm)
  have bR: "Bytes R = dropWhile (\<lambda>b. b = 0) w"
    by (simp add: R_def Bytes_SetBytes)
  have "readBytes K (writeBytes K s loc data) loc = sliceTo (Bytes R) (length data)"
    using ev len by (simp add: readBytes_def raw Let_def)
  then show ?thesis by (simp add: bR w_def c_def)
qed

text \<open>
  A read returns what was written when the string is empty, starts with a non-zero byte
  or is in the long form, and what a read has returned is read back unchanged once
  written.
\<close>

lemma readWritten_short:
  "length data < 32 \<Longrightarrow>
   readWritten data =
     sliceTo (dropWhile (\<lambda>b. b = 0) (padRight 31 data @ [of_nat (length data * 2)]))
       (length data)"
  by (simp add: readWritten_def readBytes_writeBytes_short)

lemma readBytes_writeBytes_readWritten:
  "length data < 32 \<Longrightarrow> readBytes K (writeBytes K s loc data) loc = readWritten data"
  by (simp add: readWritten_short readBytes_writeBytes_short)

lemma readWritten_id:
  assumes "data = [] \<or> hd data \<noteq> 0 \<or> 32 \<le> length data"
  shows "readWritten data = Some data"
proof (cases "length data < 32")
  case False
  then show ?thesis by (simp add: readWritten_def)
next
  case True
  show ?thesis
  proof (cases "data = []")
    case True
    have "dropWhile (\<lambda>b. b = 0) (replicate 31 (0::byte) @ [0]) = []"
      by simp
    then show ?thesis using True by (simp add: readWritten_short padRight_def sliceTo_def)
  next
    case False
    then obtain x xs where d: "data = x # xs" by (cases data) auto
    with assms True have "x \<noteq> 0" by auto
    have "readWritten data =
        sliceTo (dropWhile (\<lambda>b. b = 0) (padRight 31 data @ [of_nat (length data * 2)]))
          (length data)"
      by (rule readWritten_short[OF True])
    also have "\<dots> = Some data"
      using \<open>x \<noteq> 0\<close> by (simp add: d padRight_def sliceTo_def)
    finally show ?thesis .
  qed
qed


lemma stringOfBytes_bytesOfString: "stringOfBytes (bytesOfString str) = str"
proof -
  have "char_of (unat (of_char c :: byte)) = c" for c
  proof -
    have "(of_char c :: byte) = of_nat (of_char c)" by (simp add: of_nat_of_char)
    then have "unat (of_char c :: byte) = (of_char c :: nat) mod 2 ^ LENGTH(8)"
      by (simp only: unat_of_nat)
    also have "\<dots> = of_char c" by (simp add: of_char_mod_256)
    finally show ?thesis by simp
  qed
  then show ?thesis by (simp add: stringOfBytes_def bytesOfString_def map_idI)
qed


lemma dropWhile_zeros:
  "dropWhile (\<lambda>b. b = 0) (replicate n (0::byte) @ xs) = dropWhile (\<lambda>b. b = 0) xs"
  by (induction n) auto

lemma readWritten_examples:
  "readWritten [] = Some []" "readWritten [0, 0] = None" "readWritten [0, 1] = Some [1, 0]"
  by (simp_all add: readWritten_short padRight_def sliceTo_def dropWhile_zeros)

(*SLOW-BEGIN*)
lemma natBytes_one: "natBytes 1 = [1]"
  by (subst natBytes.simps) (simp add: natBytes_zero)

lemma HashBytes_unroll:
  "HashBytes h = map (\<lambda>i. ucast (drop_bit (8 * (31 - i)) h))
     [0, 1, 2, 3, 4, 5, 6, 7, 8, 9, 10, 11, 12, 13, 14, 15, 16, 17, 18, 19, 20, 21, 22, 23,
      24, 25, 26, 27, 28, 29, 30, 31]"
  unfolding HashBytes_def by (simp add: upt_rec)

text \<open>The short form of \<open>00 01\<close> and of \<open>00 00\<close>: 31 data bytes and the byte \<open>2 * 2\<close>.\<close>

lemma writeBytes_0_1:
  "writeBytes K s loc [0, 1] =
   s(BigToHash loc :=
       1766847064778384329583297500742918515827483896875618958121606201292619780)"
  by (simp add: writeBytes_def padRight_def setState_def BytesToHash_def SetBytes_def
      replicate_num)

lemma writeBytes_0_0: "writeBytes K s loc [0, 0] = s(BigToHash loc := 4)"
  by (simp add: writeBytes_def padRight_def setState_def BytesToHash_def SetBytes_def
      replicate_num)

lemma SetBytes_HashBytes_0_1:
  "SetBytes (HashBytes
     1766847064778384329583297500742918515827483896875618958121606201292619780) =
   1766847064778384329583297500742918515827483896875618958121606201292619780"
  by (simp add: HashBytes_unroll SetBytes_def)

lemma SetBytes_HashBytes_4: "SetBytes (HashBytes 4) = 4"
  by (simp add: HashBytes_unroll SetBytes_def)

lemma Bytes_0_1:
  "Bytes 1766847064778384329583297500742918515827483896875618958121606201292619780 =
   1 # replicate 29 0 @ [4]"
  by (simp add: Bytes_def natBytes_numeral natBytes_zero natBytes_one replicate_num)

lemma Bytes_4: "Bytes 4 = [4]"
  by (simp add: Bytes_def natBytes_numeral natBytes_zero natBytes_one)

text \<open>
  Claim C9 (byte-string round trip). The claim says that \<open>writeBytes\<close> followed by
  \<open>readBytes\<close> at the same location returns the written bytes for every byte string.
  The short form (1 to 31 bytes) is read back through \<open>rawLength.Bytes()\<close>, which drops
  the leading zero bytes of the stored word: whatever the store, the location and the hash
  function, the two-byte string \<open>00 01\<close> is read back as \<open>01 00\<close>, and for \<open>00 00\<close>
  the slice expression of \<open>readBytes\<close> is out of range (a panic).
\<close>

theorem readBytes_writeBytes_leading_zero:
  "readBytes K (writeBytes K s loc [0, 1]) loc = Some [1, 0] \<and>
   readBytes K (writeBytes K s loc [0, 0]) loc = None"
proof
  show "readBytes K (writeBytes K s loc [0, 1]) loc = Some [1, 0]"
    by (simp add: writeBytes_0_1 readBytes_def getStateBigInt_def getState_def
        SetBytes_HashBytes_0_1 Bytes_0_1 Uint64_def sliceTo_def replicate_num)
  show "readBytes K (writeBytes K s loc [0, 0]) loc = None"
    by (simp add: writeBytes_0_0 readBytes_def getStateBigInt_def getState_def
        SetBytes_HashBytes_4 Bytes_4 Uint64_def sliceTo_def)
qed

(*SLOW-END*)

section \<open>Reading a node record\<close>

text \<open>
  A record whose byte strings are read back as written is read as it is; the owner and the
  two numbers are always; what \<open>Node\<close> has returned is read back unchanged once
  \<open>UpdateNode\<close> has written it, whatever the two numbers.
\<close>

lemma Node_eqI:
  assumes "nodes s i = n"
    and "readWritten (PublicKey n) = Some (PublicKey n)"
    and "readWritten (bytesOfString (Name n)) = Some (bytesOfString (Name n))"
    and "readWritten (bytesOfString (Email n)) = Some (bytesOfString (Email n))"
    and "readWritten (bytesOfString (Location n)) = Some (bytesOfString (Location n))"
    and "readWritten (bytesOfString (Url n)) = Some (bytesOfString (Url n))"
  shows "Node s i = Some n"
  using assms by (simp add: Node_def stringOfBytes_bytesOfString)

lemma Node_fields:
  assumes "Node s i = Some n"
  shows "nodeInfo.Owner n = nodeInfo.Owner (nodes s i)" "Staked n = Staked (nodes s i)"
    "Fined n = Fined (nodes s i)"
  using assms by (auto simp: Node_def Let_def split: option.splits)



lemma Node_cong: "nodes s i = nodes t j \<Longrightarrow> Node s i = Node t j"
  by (simp add: Node_def)

lemma readWritten_replicate: "x \<noteq> 0 \<Longrightarrow> readWritten (replicate k x) = Some (replicate k x)"
  by (rule readWritten_id) (cases k, simp_all)

lemma bytesOfString_Nil: "bytesOfString [] = []"
  by (simp add: bytesOfString_def)

lemma Node_genesisNode: "nodes s i = genesisNode k \<Longrightarrow> Node s i = Some (genesisNode k)"
  by (rule Node_eqI)
     (simp_all add: genesisNode_def readWritten_replicate bytesOfString_Nil readWritten_examples)

lemma Node_emptyNode: "nodes s i = emptyNode \<Longrightarrow> Node s i = Some emptyNode"
  by (rule Node_eqI) (simp_all add: emptyNode_def bytesOfString_Nil readWritten_examples)

section \<open>Threshold gate of \<open>addDKGComplaint\<close>\<close>

text \<open>\<open>penalize\<close> forfeits all the gas left; \<open>useGas\<close> never reports a revert.\<close>

lemma penalize_eq: "penalize g = (g\<lparr>contract_Gas := 0\<rparr>, Some errExecutionReverted)"
  by (simp add: penalize_def useGas_def UseGas_def)

lemma useGas_eq:
  "useGas g n = (if contract_Gas g < n then (g, Some ErrOutOfGas)
                 else (g\<lparr>contract_Gas := contract_Gas g - n\<rparr>, None))"
  by (simp add: useGas_def UseGas_def)

lemma addDKGComplaintVerified_reverted_gas:
  assumes "addDKGComplaintVerified X g compl c = (g', Some errExecutionReverted)"
  shows "contract_Gas g' = 0"
  using assms
  by (auto simp: addDKGComplaintVerified_def penalize_eq useGas_eq Let_def
      split: if_splits sum.splits error.splits option.splits prod.splits)

lemma addDKGComplaint_rejected_iff:
  assumes "isNextRound g round"
    and "NodesOffsetByNodeKeyAddress (state g) (contract_Caller g) \<ge> 0"
    and "\<not> DKGFinalized (state g) (contract_Caller g)"
    and "contract_Gas g > 0"
  shows "addDKGComplaint X g round compl = (g, Some errExecutionReverted)
         \<longleftrightarrow> DKGFinalizedsCount (state g) > 2 * (DKGSetSize (state g) div 3)"
proof (cases "DKGFinalizedsCount (state g) > 2 * (DKGSetSize (state g) div 3)")
  case True
  with assms show ?thesis by (simp add: addDKGComplaint_def Let_def)
next
  case False
  have "addDKGComplaint X g round compl \<noteq> (g, Some errExecutionReverted)"
  proof
    assume a: "addDKGComplaint X g round compl = (g, Some errExecutionReverted)"
    show False
    proof (cases "DecodeComplaint X compl")
      case None
      with a assms False
      have "g\<lparr>contract_Gas := 0\<rparr> = g"
        by (simp add: addDKGComplaint_def Let_def penalize_eq)
      then have "contract_Gas (g\<lparr>contract_Gas := 0\<rparr>) = contract_Gas g" by simp
      with assms(4) show False by simp
    next
      case (Some c)
      show False
      proof (cases "inDKGSet X g round (ProposerID c)")
        case None
        with a assms False Some show False by (simp add: addDKGComplaint_def Let_def)
      next
        case (Some b)
        show False
        proof (cases b)
          case True
          with a assms False \<open>DecodeComplaint X compl = Some c\<close> Some
          have "addDKGComplaintVerified X g compl c = (g, Some errExecutionReverted)"
            by (simp add: addDKGComplaint_def Let_def)
          from addDKGComplaintVerified_reverted_gas[OF this] assms(4) show False by simp
        next
          case False
          with a assms \<open>\<not> DKGFinalizedsCount (state g) > 2 * (DKGSetSize (state g) div 3)\<close>
            \<open>DecodeComplaint X compl = Some c\<close> Some
          have "g\<lparr>contract_Gas := 0\<rparr> = g"
            by (simp add: addDKGComplaint_def Let_def penalize_eq)
          then have "contract_Gas (g\<lparr>contract_Gas := 0\<rparr>) = contract_Gas g" by simp
          with assms(4) show False by simp
        qed
      qed
    qed
  qed
  with False show ?thesis by simp
qed


lemma addDKGFinalize_ok:
  assumes "snd (addDKGFinalize X g round f) = None"
  shows "isNextRound g round"
    and "state (fst (addDKGFinalize X g round f)) =
         (if \<not> DKGFinalized (state g) (contract_Caller g)
          then IncDKGFinalizedsCount (PutDKGFinalized (state g) (contract_Caller g) True)
          else state g)"
    and "evm_Round (fst (addDKGFinalize X g round f)) = evm_Round g"
  using assms
  by (auto simp: addDKGFinalize_def penalize_eq useGas_eq Let_def
      split: if_splits option.splits bool.splits)

lemma callAs_simps:
  "state (callAs g a n) = state g" "contract_Caller (callAs g a n) = a"
  "evm_Round (callAs g a n) = evm_Round g" "contract_Gas (callAs g a n) = n"
  by (simp_all add: callAs_def)

lemma isNextRound_callAs: "isNextRound (callAs g a n) round = isNextRound g round"
  by (simp add: isNextRound_def callAs_simps)

lemma finalize_step:
  assumes "snd (addDKGFinalize X (callAs g a n) round f) = None"
    and "\<not> DKGFinalized (state g) a"
    and "0 \<le> DKGFinalizedsCount (state g)" "DKGFinalizedsCount (state g) < 2 ^ 256 - 1"
  defines "g' \<equiv> fst (addDKGFinalize X (callAs g a n) round f)"
  shows "DKGFinalizedsCount (state g') = DKGFinalizedsCount (state g) + 1"
    and "DKGSetSize (state g') = DKGSetSize (state g)"
    and "\<And>b. b \<noteq> a \<Longrightarrow> DKGFinalized (state g') b = DKGFinalized (state g) b"
    and "NodesOffsetByNodeKeyAddress (state g') = NodesOffsetByNodeKeyAddress (state g)"
    and "isNextRound g' round = isNextRound g round" and "isNextRound g round"
proof -
  note ok = addDKGFinalize_ok[OF assms(1)]
  have st: "state g' = IncDKGFinalizedsCount (PutDKGFinalized (state g) a True)"
    using ok(2) assms(2) by (simp add: g'_def callAs_simps)
  show "DKGFinalizedsCount (state g') = DKGFinalizedsCount (state g) + 1"
    using assms(3,4)
    by (simp add: st IncDKGFinalizedsCount_def PutDKGFinalized_def DKGFinalizedsCount_def
        stored_def)
  show "DKGSetSize (state g') = DKGSetSize (state g)"
    by (simp add: st IncDKGFinalizedsCount_def PutDKGFinalized_def DKGSetSize_def)
  show "\<And>b. b \<noteq> a \<Longrightarrow> DKGFinalized (state g') b = DKGFinalized (state g) b"
    by (simp add: st IncDKGFinalizedsCount_def PutDKGFinalized_def DKGFinalized_def)
  show "NodesOffsetByNodeKeyAddress (state g') = NodesOffsetByNodeKeyAddress (state g)"
    by (rule ext)
       (simp add: st IncDKGFinalizedsCount_def PutDKGFinalized_def
        NodesOffsetByNodeKeyAddress_def)
  show "isNextRound g' round = isNextRound g round"
    using ok(3) by (simp add: isNextRound_def g'_def callAs_simps)
  show "isNextRound g round" using ok(1) by (simp add: isNextRound_callAs)
qed

lemma addDKGComplaint_after_three_finalize:
  assumes s: "DKGSetSize (state g0) = 4" "DKGFinalizedsCount (state g0) = 0"
    and nf: "\<not> DKGFinalized (state g0) a1" "\<not> DKGFinalized (state g0) a2"
            "\<not> DKGFinalized (state g0) a3" "\<not> DKGFinalized (state g0) a4"
    and d: "distinct [a1, a2, a3, a4]"
    and staked: "0 \<le> NodesOffsetByNodeKeyAddress (state g0) a4"
    and f1: "snd (addDKGFinalize X (callAs g0 a1 n1) round f1) = None"
    and f2: "snd (addDKGFinalize X
               (callAs (fst (addDKGFinalize X (callAs g0 a1 n1) round f1)) a2 n2) round f2) = None"
    and f3: "snd (addDKGFinalize X
               (callAs (fst (addDKGFinalize X
                  (callAs (fst (addDKGFinalize X (callAs g0 a1 n1) round f1)) a2 n2) round f2))
                a3 n3) round f3) = None"
  shows "addDKGComplaint X
           (callAs (fst (addDKGFinalize X
              (callAs (fst (addDKGFinalize X
                 (callAs (fst (addDKGFinalize X (callAs g0 a1 n1) round f1)) a2 n2) round f2))
               a3 n3) round f3)) a4 n4) round compl
         = (callAs (fst (addDKGFinalize X
              (callAs (fst (addDKGFinalize X
                 (callAs (fst (addDKGFinalize X (callAs g0 a1 n1) round f1)) a2 n2) round f2))
               a3 n3) round f3)) a4 n4, Some errExecutionReverted)"
proof -
  define g1 where "g1 = fst (addDKGFinalize X (callAs g0 a1 n1) round f1)"
  define g2 where "g2 = fst (addDKGFinalize X (callAs g1 a2 n2) round f2)"
  define g3 where "g3 = fst (addDKGFinalize X (callAs g2 a3 n3) round f3)"
  have b0: "0 \<le> DKGFinalizedsCount (state g0)" "DKGFinalizedsCount (state g0) < 2 ^ 256 - 1"
    using s(2) by simp_all
  note st1 = finalize_step[OF f1 nf(1) b0, folded g1_def]
  have c1: "DKGFinalizedsCount (state g1) = 1" using st1(1) s(2) by simp
  have b1: "0 \<le> DKGFinalizedsCount (state g1)" "DKGFinalizedsCount (state g1) < 2 ^ 256 - 1"
    using c1 by simp_all
  have nf2: "\<not> DKGFinalized (state g1) a2" using st1(3)[of a2] d nf(2) by auto
  note st2 = finalize_step[OF f2[folded g1_def] nf2 b1, folded g2_def]
  have c2: "DKGFinalizedsCount (state g2) = 2" using st2(1) c1 by simp
  have b2: "0 \<le> DKGFinalizedsCount (state g2)" "DKGFinalizedsCount (state g2) < 2 ^ 256 - 1"
    using c2 by simp_all
  have nf3: "\<not> DKGFinalized (state g2) a3" using st2(3)[of a3] st1(3)[of a3] d nf(3) by auto
  note st3 = finalize_step[OF f3[folded g1_def g2_def] nf3 b2, folded g3_def]
  have c3: "DKGFinalizedsCount (state g3) = 3" using st3(1) c2 by simp
  have nf4: "\<not> DKGFinalized (state g3) a4"
    using st3(3)[of a4] st2(3)[of a4] st1(3)[of a4] d nf(4) by auto
  have n: "DKGSetSize (state g3) = 4" using st3(2) st2(2) st1(2) s(1) by simp
  have k: "0 \<le> NodesOffsetByNodeKeyAddress (state g3) a4"
    using st3(4) st2(4) st1(4) staked by simp
  have r: "isNextRound g3 round" using st3(5,6) by simp
  have "addDKGComplaint X (callAs g3 a4 n4) round compl
        = (callAs g3 a4 n4, Some errExecutionReverted)"
    using c3 nf4 n k r
    by (simp add: addDKGComplaint_def Let_def callAs_simps isNextRound_callAs)
  then show ?thesis by (simp add: g3_def g2_def g1_def)
qed


lemma length_HashBytes: "length (HashBytes h) = 32"
  by (simp add: HashBytes_def)

lemma Uint64_small: "0 \<le> x \<Longrightarrow> x < 2 ^ 64 \<Longrightarrow> Uint64 x = nat x"
  by (simp add: Uint64_def)

lemma genesisNode_sel:
  "Staked (genesisNode k) = 10" "Fined (genesisNode k) = 0"
  "PublicKey (genesisNode k) = replicate k 4" "nodeInfo.Owner (genesisNode k) = of_nat k"
  by (simp_all add: genesisNode_def)

lemma upt_0_4: "[0..<4] = [0, 1, 2, 3]"
  by (simp add: upt_rec)

lemma Node_genesis4:
  "0 \<le> i \<Longrightarrow> i < 4 \<Longrightarrow> Node genesis4 i = Some (genesisNode (nat (i + 1)))"
  by (rule Node_genesisNode) (simp add: genesis4_def)

lemma QualifiedNodes_genesis4:
  "QualifiedNodes genesis4 =
   Some [genesisNode 1, genesisNode 2, genesisNode 3, genesisNode 4]"
proof -
  have n: "nat (int64 (Uint64 (LenNodes genesis4))) = 4"
    by (simp add: genesis4_def LenNodes_def Uint64_def int64_def)
  have "those (map (\<lambda>i. Node genesis4 (int i)) [0..<4]) =
        Some [genesisNode 1, genesisNode 2, genesisNode 3, genesisNode 4]"
    by (simp add: upt_0_4 Node_genesis4)
  moreover have "MinStake genesis4 = 10" by (simp add: genesis4_def MinStake_def)
  ultimately show ?thesis by (simp add: QualifiedNodes_def n genesisNode_sel)
qed

lemma getDKGSet_genesis4:
  assumes "roundHeight (state g) 0 = 0"
  shows "getDKGSet (ext0 genesis4) g 1 = Some [101, 102, 103, 104]"
proof -
  have rs: "getRoundState (ext0 genesis4) g 0 = Some genesis4"
    using assms by (simp add: getRoundState_def ext0_def RoundHeight_def Uint64_def)
  have cs: "getConfigState (ext0 genesis4) g 1 = Some genesis4"
    using rs by (simp add: getConfigState_def ext0_def Uint64_def)
  have ids: "nodeIDs (ext0 genesis4)
               [genesisNode 1, genesisNode 2, genesisNode 3, genesisNode 4] =
             Some [101, 102, 103, 104]"
    by (simp add: genesisNode_sel ext0_def)
  have sz: "configDKGSetSize (ext0 genesis4) g 1 = 4"
    using cs by (simp add: configDKGSetSize_def DKGSetSize_def genesis4_def)
  have "dkgSetFor (ext0 genesis4) g 1 c = Some [101, 102, 103, 104]" for c
    using cs ids sz by (simp add: dkgSetFor_def QualifiedNodes_genesis4 Uint64_def ext0_def)
  then show ?thesis
    using rs by (simp add: getDKGSet_def Let_def ext0_def)
qed

lemma complaintCall_rejected:
  "c > 2 * (n div 3) \<Longrightarrow>
   addDKGComplaint (ext0 genesis4) (complaintCall n c) 1 compl =
     (complaintCall n c, Some errExecutionReverted)"
  by (simp add: addDKGComplaint_def complaintCall_def callAs_def contract0_def genesis4_def
      isNextRound_def Uint64_def NodesOffsetByNodeKeyAddress_def DKGFinalized_def
      emptyState_def DKGSetSize_def DKGFinalizedsCount_def)

lemma complaintCall_sel:
  "DKGFinalizedsCount (state (complaintCall n c)) = c"
  "DKGSetSize (state (complaintCall n c)) = n"
  by (simp_all add: complaintCall_def callAs_def contract0_def genesis4_def
      DKGSetSize_def DKGFinalizedsCount_def)

text \<open>
  Claim C2 as stated puts the gate at \<open>floor(2 * N / 3)\<close>. The code computes
  \<open>2 * floor(N / 3)\<close> (its comment: ``Calculate 2f''). With \<open>N = 5\<close> and three members
  finalized, the complaint of a staked caller that is not finalized is rejected, although
  3 does not exceed \<open>floor(10 / 3) = 3\<close>.
\<close>

theorem addDKGComplaint_threshold_counterexample:
  "addDKGComplaint (ext0 genesis4) (complaintCall 5 3) 1 [] =
     (complaintCall 5 3, Some errExecutionReverted) \<and>
   \<not> (DKGFinalizedsCount (state (complaintCall 5 3))
        > 2 * DKGSetSize (state (complaintCall 5 3)) div 3)"
  by (simp add: complaintCall_rejected complaintCall_sel)

lemma addDKGFinalize_frame:
  "roundHeight (state (fst (addDKGFinalize X g round f))) = roundHeight (state g)"
  "evm_Round (fst (addDKGFinalize X g round f)) = evm_Round g"
  by (auto simp: addDKGFinalize_def penalize_eq useGas_eq Let_def IncDKGFinalizedsCount_def
      PutDKGFinalized_def split: option.splits bool.splits)

lemma addDKGFinalize_genesis4_ok:
  assumes "roundHeight (state g) 0 = 0" "evm_Round g = 0" "contract_Gas g \<ge> 100000"
    and "ucast x \<in> set [101, 102, 103, 104 :: NodeID]"
  shows "snd (addDKGFinalize (ext0 genesis4) g 1 [x]) = None"
proof -
  have "inDKGSet (ext0 genesis4) g 1 (ucast x) = Some True"
    using getDKGSet_genesis4[OF assms(1)] assms(4) by (simp add: inDKGSet_def)
  moreover have "DecodeFinalize (ext0 genesis4) [x] = Some \<lparr>ProposerID = ucast x, Content = []\<rparr>"
    by (simp add: ext0_def decodeMsg_def)
  moreover have "VerifyDKGFinalizeSignature (ext0 genesis4) m" for m
    by (simp add: ext0_def)
  moreover have "isNextRound g 1"
    using assms(2) by (simp add: isNextRound_def Uint64_def)
  ultimately show ?thesis
    using assms(3) by (simp add: addDKGFinalize_def Let_def useGas_eq)
qed

text \<open>
  Claim C2, amended. For every DKG set size \<open>N\<close>, a complaint for the round after the
  current one, from a staked caller that is not marked finalized and has gas left, is
  rejected (execution reverted, nothing forfeited, nothing written) precisely when the
  number of finalized members exceeds \<open>2 * floor(N / 3)\<close>. With \<open>N = 4\<close> that is 2: in
  a round that starts with no finalized member, after three different addresses have each
  made a successful \<open>addDKGFinalize\<close> call, the complaint of a fourth, staked address is
  rejected.
\<close>

theorem addDKGComplaint_threshold:
  "(isNextRound g round \<and> 0 \<le> NodesOffsetByNodeKeyAddress (state g) (contract_Caller g) \<and>
    \<not> DKGFinalized (state g) (contract_Caller g) \<and> 0 < contract_Gas g \<longrightarrow>
      (addDKGComplaint X g round compl = (g, Some errExecutionReverted)) =
      (DKGFinalizedsCount (state g) > 2 * (DKGSetSize (state g) div 3)))
   \<and>
   (let r1 = addDKGFinalize X (callAs gs ca na) round fa;
        r2 = addDKGFinalize X (callAs (fst r1) cb nb) round fb;
        r3 = addDKGFinalize X (callAs (fst r2) cc nc) round fc;
        gd = callAs (fst r3) cd nd
    in DKGSetSize (state gs) = 4 \<and> DKGFinalizedsCount (state gs) = 0 \<and>
       \<not> DKGFinalized (state gs) ca \<and> \<not> DKGFinalized (state gs) cb \<and>
       \<not> DKGFinalized (state gs) cc \<and> \<not> DKGFinalized (state gs) cd \<and>
       distinct [ca, cb, cc, cd] \<and> 0 \<le> NodesOffsetByNodeKeyAddress (state gs) cd \<and>
       snd r1 = None \<and> snd r2 = None \<and> snd r3 = None \<longrightarrow>
       addDKGComplaint X gd round complD = (gd, Some errExecutionReverted))"
proof (intro conjI impI)
  assume "isNextRound g round \<and> 0 \<le> NodesOffsetByNodeKeyAddress (state g) (contract_Caller g) \<and>
    \<not> DKGFinalized (state g) (contract_Caller g) \<and> 0 < contract_Gas g"
  then show "(addDKGComplaint X g round compl = (g, Some errExecutionReverted)) =
      (DKGFinalizedsCount (state g) > 2 * (DKGSetSize (state g) div 3))"
    using addDKGComplaint_rejected_iff by blast
next
  show "let r1 = addDKGFinalize X (callAs gs ca na) round fa;
        r2 = addDKGFinalize X (callAs (fst r1) cb nb) round fb;
        r3 = addDKGFinalize X (callAs (fst r2) cc nc) round fc;
        gd = callAs (fst r3) cd nd
    in DKGSetSize (state gs) = 4 \<and> DKGFinalizedsCount (state gs) = 0 \<and>
       \<not> DKGFinalized (state gs) ca \<and> \<not> DKGFinalized (state gs) cb \<and>
       \<not> DKGFinalized (state gs) cc \<and> \<not> DKGFinalized (state gs) cd \<and>
       distinct [ca, cb, cc, cd] \<and> 0 \<le> NodesOffsetByNodeKeyAddress (state gs) cd \<and>
       snd r1 = None \<and> snd r2 = None \<and> snd r3 = None \<longrightarrow>
       addDKGComplaint X gd round complD = (gd, Some errExecutionReverted)"
    unfolding Let_def
    using addDKGComplaint_after_three_finalize[of gs ca cb cc cd X na round fa nb fb nc fc nd complD]
    by blast
qed

text \<open>
  Both parts hold with their hypotheses met in the four-node state: the gate at
  \<open>N = 4\<close> with three finalized members, and the three successful finalize calls by the
  node key addresses 101, 102, 103 followed by the complaint of 104.
\<close>

theorem addDKGComplaint_threshold_witness:
  "addDKGComplaint (ext0 genesis4) (complaintCall 4 3) 1 [] =
     (complaintCall 4 3, Some errExecutionReverted)
   \<and>
   (let r1 = addDKGFinalize (ext0 genesis4) (callAs (contract0 genesis4) 101 1000000) 1 [101];
        r2 = addDKGFinalize (ext0 genesis4) (callAs (fst r1) 102 1000000) 1 [102];
        r3 = addDKGFinalize (ext0 genesis4) (callAs (fst r2) 103 1000000) 1 [103];
        g4 = callAs (fst r3) 104 1000000
    in snd r1 = None \<and> snd r2 = None \<and> snd r3 = None \<and>
       addDKGComplaint (ext0 genesis4) g4 1 [] = (g4, Some errExecutionReverted))"
proof -
  let ?X = "ext0 genesis4"
  let ?g0 = "contract0 genesis4"
  define r1 where "r1 = addDKGFinalize ?X (callAs ?g0 101 1000000) 1 [101]"
  define r2 where "r2 = addDKGFinalize ?X (callAs (fst r1) 102 1000000) 1 [102]"
  define r3 where "r3 = addDKGFinalize ?X (callAs (fst r2) 103 1000000) 1 [103]"
  have h0: "roundHeight (state ?g0) 0 = 0" "evm_Round ?g0 = 0"
    by (simp_all add: contract0_def genesis4_def emptyState_def)
  have o1: "snd r1 = None"
    unfolding r1_def using h0
    by (intro addDKGFinalize_genesis4_ok) (simp_all add: callAs_def)
  have h1: "roundHeight (state (fst r1)) 0 = 0" "evm_Round (fst r1) = 0"
    unfolding r1_def using h0 by (simp_all add: addDKGFinalize_frame callAs_def)
  have o2: "snd r2 = None"
    unfolding r2_def using h1
    by (intro addDKGFinalize_genesis4_ok) (simp_all add: callAs_def)
  have h2: "roundHeight (state (fst r2)) 0 = 0" "evm_Round (fst r2) = 0"
    unfolding r2_def using h1 by (simp_all add: addDKGFinalize_frame callAs_def)
  have o3: "snd r3 = None"
    unfolding r3_def using h2
    by (intro addDKGFinalize_genesis4_ok) (simp_all add: callAs_def)
  have pre: "DKGSetSize (state ?g0) = 4" "DKGFinalizedsCount (state ?g0) = 0"
    "\<not> DKGFinalized (state ?g0) a" "0 \<le> NodesOffsetByNodeKeyAddress (state ?g0) 104" for a
    by (simp_all add: contract0_def genesis4_def emptyState_def DKGSetSize_def
        DKGFinalizedsCount_def DKGFinalized_def NodesOffsetByNodeKeyAddress_def)
  have d: "distinct [101, 102, 103, 104 :: address]" by simp
  have part1: "addDKGComplaint ?X (complaintCall 4 3) 1 [] =
     (complaintCall 4 3, Some errExecutionReverted)"
  proof -
    have "isNextRound (complaintCall 4 3) 1 \<and>
        0 \<le> NodesOffsetByNodeKeyAddress (state (complaintCall 4 3))
               (contract_Caller (complaintCall 4 3)) \<and>
        \<not> DKGFinalized (state (complaintCall 4 3)) (contract_Caller (complaintCall 4 3)) \<and>
        0 < contract_Gas (complaintCall 4 3)"
      by (simp add: complaintCall_def callAs_def contract0_def genesis4_def emptyState_def
          isNextRound_def Uint64_def NodesOffsetByNodeKeyAddress_def DKGFinalized_def)
    moreover have "DKGFinalizedsCount (state (complaintCall 4 3))
        > 2 * (DKGSetSize (state (complaintCall 4 3)) div 3)"
      by (simp add: complaintCall_sel)
    ultimately show ?thesis
      using addDKGComplaint_threshold[where g = "complaintCall 4 3" and round = 1 and X = ?X
          and compl = "[]"] by blast
  qed
  have part2: "addDKGComplaint ?X (callAs (fst r3) 104 1000000) 1 [] =
     (callAs (fst r3) 104 1000000, Some errExecutionReverted)"
    using addDKGComplaint_threshold[where X = ?X and round = 1 and gs = ?g0
        and ca = 101 and na = 1000000 and fa = "[101]"
        and cb = 102 and nb = 1000000 and fb = "[102]"
        and cc = 103 and nc = 1000000 and fc = "[103]"
        and cd = 104 and nd = 1000000 and complD = "[]"]
      pre d o1 o2 o3
    unfolding Let_def r1_def r2_def r3_def by blast
  show ?thesis
    unfolding Let_def using part1 part2 o1 o2 o3
    unfolding r1_def r2_def r3_def by blast
qed

section \<open>Gate and reset of \<open>addDKGMasterPublicKey\<close>\<close>

lemma clearDKGForNextRound_gas:
  "clearDKGForNextRound X g round = Some g1 \<Longrightarrow> contract_Gas g1 = contract_Gas g"
  by (auto simp: clearDKGForNextRound_def clearDKG_def Let_def split: if_splits option.splits)

lemma submitDKGMasterPublicKey_rejected_iff:
  assumes "0 \<le> NodesOffsetByNodeKeyAddress (state g) (contract_Caller g)"
    and "\<not> DKGMPKReady (state g) (contract_Caller g)"
    and "0 < contract_Gas g"
  shows "submitDKGMasterPublicKey X g round mpk = (g, Some errExecutionReverted)
         \<longleftrightarrow> DKGMPKReadysCount (state g) > 2 * (DKGSetSize (state g) div 3)"
proof (cases "DKGMPKReadysCount (state g) > 2 * (DKGSetSize (state g) div 3)")
  case True
  with assms show ?thesis by (simp add: submitDKGMasterPublicKey_def Let_def)
next
  case False
  have ne: "g\<lparr>contract_Gas := 0\<rparr> \<noteq> g"
  proof
    assume "g\<lparr>contract_Gas := 0\<rparr> = g"
    then have "contract_Gas (g\<lparr>contract_Gas := 0\<rparr>) = contract_Gas g" by simp
    with assms(3) show False by simp
  qed
  have "submitDKGMasterPublicKey X g round mpk \<noteq> (g, Some errExecutionReverted)"
    using assms(1,2) False ne
    by (auto simp: submitDKGMasterPublicKey_def Let_def penalize_eq useGas_eq
        split: option.splits bool.splits if_splits)
  with False show ?thesis by simp
qed


lemma mpkCall_sel:
  "DKGMPKReadysCount (state (mpkCall r f)) = r"
  "DKGFinalizedsCount (state (mpkCall r f)) = f"
  "DKGSetSize (state (mpkCall r f)) = 4"
  "contract_Gas (mpkCall r f) = 1000000"
  "contract_Caller (mpkCall r f) = 104"
  "evm_Round (mpkCall r f) = 0"
  "DKGRound (state (mpkCall r f)) = 1"
  "roundHeight (state (mpkCall r f)) 0 = 0"
  "NodesOffsetByNodeKeyAddress (state (mpkCall r f)) 104 = 3"
  "\<not> DKGMPKReady (state (mpkCall r f)) a"
  by (simp_all add: mpkCall_def callAs_def contract0_def genesis4_def emptyState_def
      DKGMPKReadysCount_def DKGFinalizedsCount_def DKGSetSize_def DKGRound_def
      NodesOffsetByNodeKeyAddress_def DKGMPKReady_def)

lemma mpkCall_clear:
  "isNextRound (mpkCall r f) 1"
  "clearDKGForNextRound (ext0 genesis4) (mpkCall r f) 1 = Some (mpkCall r f)"
  by (simp_all add: isNextRound_def clearDKGForNextRound_def mpkCall_sel Uint64_def)

lemma mpkCall_accepted:
  assumes "r \<le> 2"
  shows "snd (addDKGMasterPublicKey (ext0 genesis4) (mpkCall r f) 1 [104]) = None"
proof -
  have "inDKGSet (ext0 genesis4) (mpkCall r f) 1 104 = Some True"
    using getDKGSet_genesis4[of "mpkCall r f"] by (simp add: inDKGSet_def mpkCall_sel)
  moreover have "DecodeMasterPublicKey (ext0 genesis4) [104] = Some \<lparr>ProposerID = 104, Content = []\<rparr>"
    by (simp add: ext0_def decodeMsg_def)
  moreover have "VerifyDKGMasterPublicKeySignature (ext0 genesis4) m" for m
    by (simp add: ext0_def)
  ultimately show ?thesis
    using assms
    by (simp add: addDKGMasterPublicKey_def mpkCall_clear submitDKGMasterPublicKey_def
        Let_def mpkCall_sel useGas_eq)
qed

lemma mpkCall_rejected:
  assumes "r > 2"
  shows "addDKGMasterPublicKey (ext0 genesis4) (mpkCall r f) 1 mpk =
         (mpkCall r f, Some errExecutionReverted)"
  using assms
  by (simp add: addDKGMasterPublicKey_def mpkCall_clear submitDKGMasterPublicKey_def
      Let_def mpkCall_sel)

text \<open>
  Claim C4 as stated: a master public key is penalized whenever the finalized count
  exceeds the threshold. In the four-node state with three members finalized (more than
  the threshold 2) and none MPK-ready, the master public key of a staked member is
  accepted; with three members MPK-ready as well it is turned down by a plain revert that
  leaves the caller's gas, which is not what \<open>penalize\<close> returns.
\<close>

theorem addDKGMasterPublicKey_gate_counterexample:
  "DKGFinalizedsCount (state (mpkCall 0 3)) > 2 * DKGSetSize (state (mpkCall 0 3)) div 3 \<and>
   snd (addDKGMasterPublicKey (ext0 genesis4) (mpkCall 0 3) 1 [104]) = None \<and>
   DKGFinalizedsCount (state (mpkCall 3 3)) > 2 * DKGSetSize (state (mpkCall 3 3)) div 3 \<and>
   addDKGMasterPublicKey (ext0 genesis4) (mpkCall 3 3) 1 [104] =
     (mpkCall 3 3, Some errExecutionReverted) \<and>
   addDKGMasterPublicKey (ext0 genesis4) (mpkCall 3 3) 1 [104] \<noteq> penalize (mpkCall 3 3)"
proof -
  have "contract_Gas (fst (penalize (mpkCall 3 3))) \<noteq> contract_Gas (mpkCall 3 3)"
    by (simp add: penalize_eq mpkCall_sel)
  then have "(mpkCall 3 3, Some errExecutionReverted) \<noteq> penalize (mpkCall 3 3)"
    by (metis fst_conv)
  then show ?thesis
    by (simp add: mpkCall_sel mpkCall_accepted mpkCall_rejected)
qed

text \<open>
  Claim C4, amended. A master public key for the round after the current one, from a
  staked caller that is not marked MPK-ready and has gas left, is rejected by a revert
  that forfeits nothing precisely when the number of MPK-ready members exceeds
  \<open>2 * floor(N / 3)\<close>; the count is read after the reset that the first submission for a
  round performs. The finalized count plays no part.
\<close>

theorem addDKGMasterPublicKey_gate:
  assumes "isNextRound g round"
    and "clearDKGForNextRound X g round = Some g1"
    and "0 \<le> NodesOffsetByNodeKeyAddress (state g1) (contract_Caller g1)"
    and "\<not> DKGMPKReady (state g1) (contract_Caller g1)"
    and "0 < contract_Gas g"
  shows "(addDKGMasterPublicKey X g round mpk = (g1, Some errExecutionReverted)) =
         (DKGMPKReadysCount (state g1) > 2 * (DKGSetSize (state g1) div 3))"
proof -
  have "0 < contract_Gas g1"
    using clearDKGForNextRound_gas[OF assms(2)] assms(5) by simp
  from submitDKGMasterPublicKey_rejected_iff[OF assms(3,4) this, of X round mpk]
  show ?thesis using assms(1,2) by (simp add: addDKGMasterPublicKey_def)
qed

text \<open>The gate at work: three members MPK-ready, none finalized, DKG set size 4.\<close>

theorem addDKGMasterPublicKey_gate_witness:
  "addDKGMasterPublicKey (ext0 genesis4) (mpkCall 3 0) 1 [104] =
     (mpkCall 3 0, Some errExecutionReverted)"
proof -
  have "(addDKGMasterPublicKey (ext0 genesis4) (mpkCall 3 0) 1 [104] =
          (mpkCall 3 0, Some errExecutionReverted)) =
        (DKGMPKReadysCount (state (mpkCall 3 0)) > 2 * (DKGSetSize (state (mpkCall 3 0)) div 3))"
    by (rule addDKGMasterPublicKey_gate) (simp_all add: mpkCall_clear mpkCall_sel)
  then show ?thesis by (simp add: mpkCall_sel)
qed


lemma ClearDKGMPKReady_eq:
  "ClearDKGMPKReady s ids =
   s\<lparr>dkgReady := (\<lambda>a. if a \<in> idToAddress ` set ids then 0 else dkgReady s a)\<rparr>"
proof (induction ids rule: rev_induct)
  case Nil
  show ?case by (simp add: ClearDKGMPKReady_def)
next
  case (snoc x xs)
  have "ClearDKGMPKReady s (xs @ [x]) = PutDKGMPKReady (ClearDKGMPKReady s xs) (idToAddress x) False"
    by (simp add: ClearDKGMPKReady_def)
  also have "\<dots> = s\<lparr>dkgReady := (\<lambda>a. if a \<in> idToAddress ` set (xs @ [x]) then 0 else dkgReady s a)\<rparr>"
    by (simp add: snoc.IH PutDKGMPKReady_def fun_eq_iff)
  finally show ?case .
qed

lemma ClearDKGFinalized_eq:
  "ClearDKGFinalized s ids =
   s\<lparr>dkgFinalized := (\<lambda>a. if a \<in> idToAddress ` set ids then 0 else dkgFinalized s a)\<rparr>"
proof (induction ids rule: rev_induct)
  case Nil
  show ?case by (simp add: ClearDKGFinalized_def)
next
  case (snoc x xs)
  have "ClearDKGFinalized s (xs @ [x]) =
        PutDKGFinalized (ClearDKGFinalized s xs) (idToAddress x) False"
    by (simp add: ClearDKGFinalized_def)
  also have "\<dots> = s\<lparr>dkgFinalized :=
      (\<lambda>a. if a \<in> idToAddress ` set (xs @ [x]) then 0 else dkgFinalized s a)\<rparr>"
    by (simp add: snoc.IH PutDKGFinalized_def fun_eq_iff)
  finally show ?case .
qed

lemma clearDKGForNextRound_first:
  assumes "DKGRound (state g) = evm_Round g" "getDKGSet X g (evm_Round g) = Some dkgSet"
  shows "clearDKGForNextRound X g round =
    Some (g\<lparr>state := (state g)
      \<lparr>dkgMasterPublicKeys := [], dkgComplaints := [],
       dkgReady := (\<lambda>a. if a \<in> idToAddress ` set dkgSet then 0 else dkgReady (state g) a),
       dkgReadysCount := 0,
       dkgFinalized := (\<lambda>a. if a \<in> idToAddress ` set dkgSet then 0
                             else dkgFinalized (state g) a),
       dkgFinalizedsCount := 0, dkgRound := stored round\<rparr>\<rparr>)"
  using assms
  by (simp add: clearDKGForNextRound_def clearDKG_def Let_def ClearDKGMPKReady_eq
      ClearDKGFinalized_eq ClearDKGMasterPublicKeys_def ClearDKGComplaints_def
      ResetDKGMPKReadysCount_def ResetDKGFinalizedsCount_def SetDKGRound_def cong: if_cong)

lemma stored_id: "0 \<le> v \<Longrightarrow> v < 2 ^ 256 \<Longrightarrow> stored v = v"
  by (simp add: stored_def)

text \<open>
  Claim C3, amended. When \<open>addDKGMasterPublicKey\<close> is called for the round after the
  current one while \<open>dkgRound\<close> still equals the current round, and the DKG set of the
  current round can be computed, the submission is processed in a state \<open>g1\<close> in which
  the master public keys and the complaints are empty, both counters are 0, the
  MPK-ready and finalized flags of the addresses of the members of that DKG set are
  false, the flags of every other address are as they were, and \<open>dkgRound\<close> is the new
  round.
\<close>

theorem addDKGMasterPublicKey_first_clears:
  assumes "isNextRound g round" and "DKGRound (state g) = evm_Round g"
    and "getDKGSet X g (evm_Round g) = Some dkgSet"
    and "0 \<le> round" and "round < 2 ^ 256"
  shows "\<exists>g1. clearDKGForNextRound X g round = Some g1 \<and>
    addDKGMasterPublicKey X g round mpk = submitDKGMasterPublicKey X g1 round mpk \<and>
    DKGMasterPublicKeys (state g1) = [] \<and> DKGComplaints (state g1) = [] \<and>
    DKGMPKReadysCount (state g1) = 0 \<and> DKGFinalizedsCount (state g1) = 0 \<and>
    (\<forall>a. DKGMPKReady (state g1) a =
           (DKGMPKReady (state g) a \<and> a \<notin> idToAddress ` set dkgSet)) \<and>
    (\<forall>a. DKGFinalized (state g1) a =
           (DKGFinalized (state g) a \<and> a \<notin> idToAddress ` set dkgSet)) \<and>
    DKGRound (state g1) = round"
proof -
  note c = clearDKGForNextRound_first[OF assms(2,3), of round]
  show ?thesis
    apply (rule exI)
    apply (rule conjI, rule c)
    using assms(1,4,5)
    by (simp add: addDKGMasterPublicKey_def c DKGMasterPublicKeys_def DKGComplaints_def
        DKGMPKReadysCount_def DKGFinalizedsCount_def DKGMPKReady_def DKGFinalized_def
        DKGRound_def stored_id)
qed


lemma getDKGSet_genesis4_round2:
  assumes "roundHeight (state g) 0 = 0" "crsRound (state g) = 2"
  shows "getDKGSet (ext0 genesis4) g 2 = Some [101, 102, 103, 104]"
proof -
  have rs: "getRoundState (ext0 genesis4) g 0 = Some genesis4"
    using assms(1) by (simp add: getRoundState_def ext0_def RoundHeight_def Uint64_def)
  have cs: "getConfigState (ext0 genesis4) g 2 = Some genesis4"
    using rs by (simp add: getConfigState_def ext0_def Uint64_def)
  have ids: "nodeIDs (ext0 genesis4)
               [genesisNode 1, genesisNode 2, genesisNode 3, genesisNode 4] =
             Some [101, 102, 103, 104]"
    by (simp add: genesisNode_sel ext0_def)
  have sz: "configDKGSetSize (ext0 genesis4) g 2 = 4"
    using cs by (simp add: configDKGSetSize_def DKGSetSize_def genesis4_def)
  have "dkgSetFor (ext0 genesis4) g 2 c = Some [101, 102, 103, 104]" for c
    using cs ids sz by (simp add: dkgSetFor_def QualifiedNodes_genesis4 Uint64_def ext0_def)
  then show ?thesis
    using assms(2) by (simp add: getDKGSet_def Let_def ext0_def CRSRound_def)
qed

lemma firstMPKCall_sel:
  "evm_Round firstMPKCall = 1" "contract_Caller firstMPKCall = 104"
  "contract_Gas firstMPKCall = 1000000"
  "DKGRound (state firstMPKCall) = 1" "roundHeight (state firstMPKCall) 0 = 0"
  "crsRound (state firstMPKCall) = 2"
  "nodesOffsetByNodeKeyAddress (state firstMPKCall) 104 = 4"
  "dkgSetSize (state firstMPKCall) = 4"
  "dkgReady (state firstMPKCall) a = (if a = 200 then 1 else 0)"
  "dkgFinalized (state firstMPKCall) a = (if a = 200 then 1 else 0)"
  by (simp_all add: firstMPKCall_def callAs_def contract0_def relayState_def genesis4_def
      emptyState_def DKGRound_def)

lemma firstMPKCall_isNextRound: "isNextRound firstMPKCall 2"
  by (simp add: isNextRound_def firstMPKCall_sel Uint64_def)

lemma firstMPKCall_dkgSet:
  "getDKGSet (ext0 genesis4) firstMPKCall (evm_Round firstMPKCall) = Some [101, 102, 103, 104]"
  by (simp add: firstMPKCall_sel getDKGSet_genesis4)

text \<open>
  Claim C3 as stated: every address's flags become false. \<open>clearDKG\<close> walks the DKG set
  of the current round only. In \<open>firstMPKCall\<close> the address 200 is outside the set and
  keeps both flags through the reset and through the (successful) call.
\<close>

theorem addDKGMasterPublicKey_first_clears_counterexample:
  "isNextRound firstMPKCall 2 \<and> DKGRound (state firstMPKCall) = evm_Round firstMPKCall \<and>
   (case clearDKGForNextRound (ext0 genesis4) firstMPKCall 2 of
      None \<Rightarrow> False
    | Some g1 \<Rightarrow> DKGMPKReady (state g1) 200 \<and> DKGFinalized (state g1) 200) \<and>
   snd (addDKGMasterPublicKey (ext0 genesis4) firstMPKCall 2 [104]) = None \<and>
   DKGMPKReady (state (fst (addDKGMasterPublicKey (ext0 genesis4) firstMPKCall 2 [104]))) 200 \<and>
   DKGFinalized (state (fst (addDKGMasterPublicKey (ext0 genesis4) firstMPKCall 2 [104]))) 200"
proof -
  define g1 where "g1 = firstMPKCall\<lparr>state := (state firstMPKCall)
      \<lparr>dkgMasterPublicKeys := [], dkgComplaints := [],
       dkgReady := (\<lambda>a. if a \<in> idToAddress ` set [101, 102, 103, 104] then 0
                         else dkgReady (state firstMPKCall) a),
       dkgReadysCount := 0,
       dkgFinalized := (\<lambda>a. if a \<in> idToAddress ` set [101, 102, 103, 104] then 0
                             else dkgFinalized (state firstMPKCall) a),
       dkgFinalizedsCount := 0, dkgRound := stored 2\<rparr>\<rparr>"
  have c: "clearDKGForNextRound (ext0 genesis4) firstMPKCall 2 = Some g1"
    unfolding g1_def
    by (rule clearDKGForNextRound_first) (simp_all add: firstMPKCall_sel getDKGSet_genesis4)
  have fl: "DKGMPKReady (state g1) 200" "DKGFinalized (state g1) 200"
    "\<not> DKGMPKReady (state g1) 104"
    by (simp_all add: g1_def DKGMPKReady_def DKGFinalized_def idToAddress_def firstMPKCall_sel)
  have sel: "0 \<le> NodesOffsetByNodeKeyAddress (state g1) 104" "contract_Caller g1 = 104"
    "DKGMPKReadysCount (state g1) = 0" "DKGSetSize (state g1) = 4"
    "contract_Gas g1 = 1000000"
    by (simp_all add: g1_def NodesOffsetByNodeKeyAddress_def DKGMPKReadysCount_def
        DKGSetSize_def firstMPKCall_sel)
  have ds: "getDKGSet (ext0 genesis4) g1 2 = Some [101, 102, 103, 104]"
    by (rule getDKGSet_genesis4_round2) (simp_all add: g1_def firstMPKCall_sel)
  have dec: "DecodeMasterPublicKey (ext0 genesis4) [104] = Some \<lparr>ProposerID = 104, Content = []\<rparr>"
    by (simp add: ext0_def decodeMsg_def)
  have ver: "VerifyDKGMasterPublicKeySignature (ext0 genesis4) m" for m
    by (simp add: ext0_def)
  have sub: "submitDKGMasterPublicKey (ext0 genesis4) g1 2 [104] =
      (g1\<lparr>state := PushDKGMasterPublicKey (state g1) [104], contract_Gas := 900000\<rparr>, None)"
    using fl(3) sel
    by (simp add: submitDKGMasterPublicKey_def Let_def inDKGSet_def ds dec ver useGas_eq)
  have r: "addDKGMasterPublicKey (ext0 genesis4) firstMPKCall 2 [104] =
      (g1\<lparr>state := PushDKGMasterPublicKey (state g1) [104], contract_Gas := 900000\<rparr>, None)"
    by (simp add: addDKGMasterPublicKey_def firstMPKCall_isNextRound c sub)
  have fl2: "DKGMPKReady (PushDKGMasterPublicKey (state g1) [104]) 200"
    "DKGFinalized (PushDKGMasterPublicKey (state g1) [104]) 200"
    using fl(1,2) by (simp_all add: PushDKGMasterPublicKey_def DKGMPKReady_def DKGFinalized_def)
  show ?thesis
    using fl(1,2) fl2 by (simp add: firstMPKCall_isNextRound firstMPKCall_sel c r)
qed

text \<open>The reset on the first submission for round 2 in \<open>firstMPKCall\<close>.\<close>

theorem addDKGMasterPublicKey_first_clears_witness:
  "\<exists>g1. clearDKGForNextRound (ext0 genesis4) firstMPKCall 2 = Some g1 \<and>
    addDKGMasterPublicKey (ext0 genesis4) firstMPKCall 2 [104] =
      submitDKGMasterPublicKey (ext0 genesis4) g1 2 [104] \<and>
    DKGMasterPublicKeys (state g1) = [] \<and> DKGComplaints (state g1) = [] \<and>
    DKGMPKReadysCount (state g1) = 0 \<and> DKGFinalizedsCount (state g1) = 0 \<and>
    (\<forall>a. DKGMPKReady (state g1) a =
           (DKGMPKReady (state firstMPKCall) a \<and> a \<notin> idToAddress ` set [101, 102, 103, 104])) \<and>
    (\<forall>a. DKGFinalized (state g1) a =
           (DKGFinalized (state firstMPKCall) a \<and> a \<notin> idToAddress ` set [101, 102, 103, 104])) \<and>
    DKGRound (state g1) = 2"
  by (rule addDKGMasterPublicKey_first_clears)
     (simp_all add: firstMPKCall_isNextRound firstMPKCall_sel getDKGSet_genesis4)

section \<open>\<open>stake\<close> with a public key that does not parse\<close>

lemma stake_bad_key:
  assumes "length name < 32" "length email < 32" "length location < 32" "length url < 128"
    and "NodesOffsetByAddress (state g) (contract_Caller g) < 0"
    and "UnmarshalPubkey X publicKey = None"
  shows "stake X g publicKey name email location url =
         penalize (g\<lparr>state := PushNode (state g)
           \<lparr>nodeInfo.Owner = contract_Caller g, PublicKey = publicKey, Staked = 0, Fined = 0,
            Name = name, Email = email, Location = location, Url = url\<rparr>\<rparr>)"
  using assms
  by (simp add: stake_def Let_def PutNodeOffsets_def publicKeyToNodeKeyAddress_def)

text \<open>
  Claim C10. When \<open>stake\<close> is called with every text field within its bound, by a caller
  without a node, with a public key that \<open>UnmarshalPubkey\<close> refuses, the handler has
  already pushed the node record when \<open>PutNodeOffsets\<close> fails; it returns through
  \<open>penalize\<close>, so all the gas is forfeited, and the host discards the writes: after the
  call the governance state and the balances are what they were before it.
\<close>

theorem stake_unparseable_key_penalized:
  assumes "length name < 32" "length email < 32" "length location < 32" "length url < 128"
    and "NodesOffsetByAddress (state g) a < 0"
    and "UnmarshalPubkey X publicKey = None"
  shows "let c = \<lparr>caller = a, callValue = v, time = t, gas = n,
                  called = Stake publicKey name email location url\<rparr>;
             g0 = g\<lparr>contract_Caller := a, contract_Value := v, evm_Time := t,
                    contract_Gas := n\<rparr>
         in stake X g0 publicKey name email location url =
              penalize (g0\<lparr>state := PushNode (state g0)
                \<lparr>nodeInfo.Owner = a, PublicKey = publicKey, Staked = 0, Fined = 0,
                 Name = name, Email = email, Location = location, Url = url\<rparr>\<rparr>) \<and>
            state (apply_call X g c) = state g \<and>
            balance (apply_call X g c) = balance g \<and>
            contract_Gas (apply_call X g c) = 0"
proof -
  let ?g0 = "g\<lparr>contract_Caller := a, contract_Value := v, evm_Time := t, contract_Gas := n\<rparr>"
  have r: "stake X ?g0 publicKey name email location url = penalize (?g0\<lparr>state := PushNode (state ?g0)
           \<lparr>nodeInfo.Owner = a, PublicKey = publicKey, Staked = 0, Fined = 0,
            Name = name, Email = email, Location = location, Url = url\<rparr>\<rparr>)"
    using assms(1-6) stake_bad_key[of name email location url ?g0 X publicKey] by simp
  show ?thesis
    unfolding Let_def
    apply (intro conjI)
       apply (rule r)
    by (simp_all add: apply_call_def Let_def r penalize_eq commit_def)
qed

text \<open>The address 7, which has no node, stakes with the empty public key.\<close>

theorem stake_unparseable_key_penalized_witness:
  "snd (stake (ext0 genesis4)
           ((contract0 genesis4)\<lparr>contract_Caller := 7, contract_Value := 10, evm_Time := 50,
              contract_Gas := 1000000\<rparr>) [] ''n7'' ''e7'' ''l7'' ''u7'')
     = Some errExecutionReverted \<and>
   state (apply_call (ext0 genesis4) (contract0 genesis4)
      \<lparr>caller = 7, callValue = 10, time = 50, gas = 1000000,
       called = Stake [] ''n7'' ''e7'' ''l7'' ''u7''\<rparr>) = genesis4 \<and>
   contract_Gas (apply_call (ext0 genesis4) (contract0 genesis4)
      \<lparr>caller = 7, callValue = 10, time = 50, gas = 1000000,
       called = Stake [] ''n7'' ''e7'' ''l7'' ''u7''\<rparr>) = 0"
proof -
  have n: "NodesOffsetByAddress (state (contract0 genesis4)) 7 < 0"
    by (simp add: NodesOffsetByAddress_def contract0_def genesis4_def)
  have u: "UnmarshalPubkey (ext0 genesis4) [] = None"
    by (simp add: ext0_def)
  from stake_unparseable_key_penalized[where name = "''n7''" and email = "''e7''"
      and location = "''l7''" and url = "''u7''" and g = "contract0 genesis4" and a = 7
      and X = "ext0 genesis4" and publicKey = "[]" and v = 10 and t = 50 and n = 1000000,
      OF _ _ _ _ n u]
  show ?thesis by (simp add: Let_def penalize_eq contract0_def)
qed

section \<open>Fines are charged once per evidence\<close>

text \<open>\<open>bytes.Compare\<close> is a total order, and inserting in order commutes, so the sorted
  payloads do not depend on the order of the arguments.\<close>

lemma Less_irrefl: "\<not> Less a a"
  by (induction a) auto





















section \<open>Lockup enforcement in \<open>withdraw\<close>\<close>

lemma withdraw_locked:
  assumes "0 \<le> NodesOffsetByAddress (state g) nodeAddr"
    and "0 \<le> DelegatorsOffset (state g) nodeAddr (contract_Caller g)"
    and "d = Delegator (state g) nodeAddr (DelegatorsOffset (state g) nodeAddr (contract_Caller g))"
    and "UndelegatedAt d \<noteq> 0"
    and "evm_Time g \<le> UndelegatedAt d + LockupPeriod (state g)"
  shows "withdraw X g nodeAddr = penalize g"
  using assms by (simp add: withdraw_def Let_def)

lemma withdrawDeleteDelegator_facts:
  assumes "1 \<le> LenDelegators s nodeAddr" "LenDelegators s nodeAddr \<le> 2 ^ 256"
  shows "LenDelegators (withdrawDeleteDelegator s nodeAddr who offset) nodeAddr
         = LenDelegators s nodeAddr - 1"
    and "DelegatorsOffset (withdrawDeleteDelegator s nodeAddr who offset) nodeAddr who = - 1"
    and "Delegator (withdrawDeleteDelegator s nodeAddr who offset) nodeAddr
           (LenDelegators s nodeAddr - 1) = emptyDelegator"
    and "nodes (withdrawDeleteDelegator s nodeAddr who offset) = nodes s"
    and "nodesLength (withdrawDeleteDelegator s nodeAddr who offset) = nodesLength s"
  using assms
  by (simp_all add: withdrawDeleteDelegator_def Let_def LenDelegators_def PopLastDelegator_def
      UpdateDelegator_def DeleteDelegatorsOffset_def PutDelegatorOffset_def DelegatorsOffset_def
      Delegator_def emptyDelegator_def stored_def)

lemma withdrawDeleteDelegator_rows:
  assumes "lastRow = Delegator s nodeAddr (LenDelegators s nodeAddr - 1)"
    and "0 \<le> Value lastRow" "Value lastRow < 2 ^ 256"
    and "0 \<le> UndelegatedAt lastRow" "UndelegatedAt lastRow < 2 ^ 256"
    and "j < LenDelegators s nodeAddr - 1"
  shows "Delegator (withdrawDeleteDelegator s nodeAddr who offset) nodeAddr j =
         (if j = offset then lastRow else Delegator s nodeAddr j)"
  using assms
  by (simp add: withdrawDeleteDelegator_def Let_def LenDelegators_def PopLastDelegator_def
      UpdateDelegator_def DeleteDelegatorsOffset_def PutDelegatorOffset_def
      Delegator_def stored_id)

lemma withdrawDeleteDelegator_offsets:
  assumes "lastRow = Delegator s nodeAddr (LenDelegators s nodeAddr - 1)"
  shows "offset \<noteq> LenDelegators s nodeAddr - 1 \<Longrightarrow> Owner lastRow \<noteq> who \<Longrightarrow>
         0 \<le> offset \<Longrightarrow> offset < 2 ^ 256 - 1 \<Longrightarrow>
         DelegatorsOffset (withdrawDeleteDelegator s nodeAddr who offset) nodeAddr (Owner lastRow)
           = offset"
    and "b \<noteq> who \<Longrightarrow> b \<noteq> Owner lastRow \<Longrightarrow>
         DelegatorsOffset (withdrawDeleteDelegator s nodeAddr who offset) nodeAddr b
           = DelegatorsOffset s nodeAddr b"
  using assms
  by (simp_all add: withdrawDeleteDelegator_def Let_def LenDelegators_def PopLastDelegator_def
      UpdateDelegator_def DeleteDelegatorsOffset_def PutDelegatorOffset_def
      Delegator_def DelegatorsOffset_def stored_id)

lemma transfer_ok:
  "amount \<le> balance g from \<Longrightarrow> transfer g from to amount = (Transfer g from to amount, True)"
  by (simp add: transfer_def CanTransfer_def)

lemma transfer_short:
  "balance g from < amount \<Longrightarrow> transfer g from to amount = (g, False)"
  by (simp add: transfer_def CanTransfer_def)

lemma Transfer_sel:
  "state (Transfer g from to amount) = state g"
  "contract_Gas (Transfer g from to amount) = contract_Gas g"
  by (simp_all add: Transfer_def Let_def)

lemma withdrawRemoveNode_ok:
  assumes "100000 \<le> contract_Gas g"
    and "offset \<noteq> LenNodes (state g) - 1 \<longrightarrow>
         (\<exists>m. Node (state g) (LenNodes (state g) - 1) = Some m \<and>
              UnmarshalPubkey X (PublicKey m) \<noteq> None)"
  shows "snd (withdrawRemoveNode X g nodeAddr offset) = None"
    and "delegators (state (fst (withdrawRemoveNode X g nodeAddr offset))) = delegators (state g)"
    and "delegatorsLength (state (fst (withdrawRemoveNode X g nodeAddr offset)))
         = delegatorsLength (state g)"
    and "delegatorsOffset (state (fst (withdrawRemoveNode X g nodeAddr offset)))
         = delegatorsOffset (state g)"
    and "balance (fst (withdrawRemoveNode X g nodeAddr offset)) = balance g"
    and "contract_Gas (fst (withdrawRemoveNode X g nodeAddr offset)) = contract_Gas g - 100000"
  using assms
  by (auto simp: withdrawRemoveNode_def Let_def PutNodeOffsets_def publicKeyToNodeKeyAddress_def
      useGas_eq PopLastNode_def DeleteNodesOffsetByAddress_def UpdateNode_def
      PutNodesOffsetByAddress_def PutNodesOffsetByNodeKeyAddress_def LenNodes_def
      split: option.splits)

lemma withdraw_unlocked:
  assumes node: "0 \<le> NodesOffsetByAddress (state g) nodeAddr"
    and off: "off = DelegatorsOffset (state g) nodeAddr (contract_Caller g)" "0 \<le> off"
    and d: "d = Delegator (state g) nodeAddr off"
    and u: "UndelegatedAt d \<noteq> 0"
    and li: "lastIndex = LenDelegators (state g) nodeAddr - 1"
    and lr: "lastRow = Delegator (state g) nodeAddr lastIndex"
    and t: "UndelegatedAt d + LockupPeriod (state g) < evm_Time g"
    and len: "off \<le> lastIndex" "lastIndex < 2 ^ 256"
    and range: "0 \<le> Value lastRow" "Value lastRow < 2 ^ 256"
      "0 \<le> UndelegatedAt lastRow" "UndelegatedAt lastRow < 2 ^ 256"
    and bal: "Value d \<le> balance g (GovernanceContractAddress X)"
    and gas: "100000 \<le> contract_Gas g"
    and key: "lastIndex = 0 \<and> off \<noteq> LenNodes (state g) - 1 \<longrightarrow>
              (\<exists>m. Node (state g) (LenNodes (state g) - 1) = Some m \<and>
                   UnmarshalPubkey X (PublicKey m) \<noteq> None)"
  shows "snd (withdraw X g nodeAddr) = None"
    and "balance (fst (withdraw X g nodeAddr)) =
      balance (Transfer g (GovernanceContractAddress X) (Owner d) (Value d))"
    and "LenDelegators (state (fst (withdraw X g nodeAddr))) nodeAddr = lastIndex"
    and "DelegatorsOffset (state (fst (withdraw X g nodeAddr))) nodeAddr (contract_Caller g) = - 1"
    and "\<forall>j. 0 \<le> j \<and> j < lastIndex \<longrightarrow>
           Delegator (state (fst (withdraw X g nodeAddr))) nodeAddr j =
             (if j = off then lastRow else Delegator (state g) nodeAddr j)"
    and "Delegator (state (fst (withdraw X g nodeAddr))) nodeAddr lastIndex = emptyDelegator"
    and "off \<noteq> lastIndex \<and> Owner lastRow \<noteq> contract_Caller g \<longrightarrow>
           DelegatorsOffset (state (fst (withdraw X g nodeAddr))) nodeAddr (Owner lastRow) = off"
    and "\<forall>b. b \<noteq> contract_Caller g \<and> b \<noteq> Owner lastRow \<longrightarrow>
           DelegatorsOffset (state (fst (withdraw X g nodeAddr))) nodeAddr b =
             DelegatorsOffset (state g) nodeAddr b"
    and "contract_Gas (fst (withdraw X g nodeAddr)) = contract_Gas g - 100000"
proof -
  let ?who = "contract_Caller g"
  let ?s3 = "withdrawDeleteDelegator (state g) nodeAddr ?who off"
  let ?g1 = "Transfer (g\<lparr>state := ?s3\<rparr>) (GovernanceContractAddress X) (Owner d) (Value d)"
  have len1: "1 \<le> LenDelegators (state g) nodeAddr" "LenDelegators (state g) nodeAddr \<le> 2 ^ 256"
    using off(2) len li by simp_all
  note f = withdrawDeleteDelegator_facts[OF len1, of ?who off, folded li]
  have lr': "lastRow = Delegator (state g) nodeAddr (LenDelegators (state g) nodeAddr - 1)"
    using lr li by simp
  have rows: "Delegator ?s3 nodeAddr j = (if j = off then lastRow else Delegator (state g) nodeAddr j)"
    if "j < lastIndex" for j
    using withdrawDeleteDelegator_rows[OF lr' range, of j ?who off] that li by simp
  have o1: "DelegatorsOffset ?s3 nodeAddr (Owner lastRow) = off"
    if "off \<noteq> lastIndex" "Owner lastRow \<noteq> ?who"
    using withdrawDeleteDelegator_offsets(1)[OF lr', of off ?who] that off(2) len li by simp
  have o2: "DelegatorsOffset ?s3 nodeAddr b = DelegatorsOffset (state g) nodeAddr b"
    if "b \<noteq> ?who" "b \<noteq> Owner lastRow" for b
    using withdrawDeleteDelegator_offsets(2)[OF lr', of b ?who off] that by simp
  have tr: "transfer (g\<lparr>state := ?s3\<rparr>) (GovernanceContractAddress X) (Owner d) (Value d)
            = (?g1, True)"
    using bal by (simp add: transfer_ok)
  have w: "withdraw X g nodeAddr =
      (if LenDelegators (state ?g1) nodeAddr = 0 then withdrawRemoveNode X ?g1 nodeAddr off
       else useGas ?g1 100000)"
    using node off u t tr d by (simp add: withdraw_def Let_def)
  have st1: "state ?g1 = ?s3" "contract_Gas ?g1 = contract_Gas g"
    "balance ?g1 = balance (Transfer g (GovernanceContractAddress X) (Owner d) (Value d))"
    by (simp_all add: Transfer_def Let_def)
  have r: "snd (withdraw X g nodeAddr) = None \<and>
      contract_Gas (fst (withdraw X g nodeAddr)) = contract_Gas g - 100000 \<and>
      balance (fst (withdraw X g nodeAddr)) = balance ?g1 \<and>
      delegators (state (fst (withdraw X g nodeAddr))) = delegators ?s3 \<and>
      delegatorsLength (state (fst (withdraw X g nodeAddr))) = delegatorsLength ?s3 \<and>
      delegatorsOffset (state (fst (withdraw X g nodeAddr))) = delegatorsOffset ?s3"
  proof (cases "LenDelegators (state ?g1) nodeAddr = 0")
    case True
    then have l0: "lastIndex = 0" using f(1) st1(1) by simp
    have "Node (state ?g1) (LenNodes (state ?g1) - 1) = Node (state g) (LenNodes (state g) - 1)"
      unfolding st1(1) by (rule Node_cong) (simp add: f(4,5) LenNodes_def)
    then have k: "off \<noteq> LenNodes (state ?g1) - 1 \<longrightarrow>
         (\<exists>m. Node (state ?g1) (LenNodes (state ?g1) - 1) = Some m \<and>
              UnmarshalPubkey X (PublicKey m) \<noteq> None)"
      using key l0 f(5) by (simp add: st1(1) LenNodes_def)
    have g': "100000 \<le> contract_Gas ?g1" using gas st1(2) by simp
    note rn = withdrawRemoveNode_ok[OF g' k, of nodeAddr]
    have w': "withdraw X g nodeAddr = withdrawRemoveNode X ?g1 nodeAddr off"
      using w True by simp
    show ?thesis
      unfolding w' using rn st1 by simp
  next
    case False
    then have w': "withdraw X g nodeAddr = useGas ?g1 100000" using w by simp
    show ?thesis
      unfolding w' using st1 gas by (simp add: useGas_eq)
  qed
  have D: "Delegator (state (fst (withdraw X g nodeAddr))) nodeAddr j = Delegator ?s3 nodeAddr j"
    for j using r by (simp add: Delegator_def)
  have O: "DelegatorsOffset (state (fst (withdraw X g nodeAddr))) nodeAddr b =
           DelegatorsOffset ?s3 nodeAddr b" for b
    using r by (simp add: DelegatorsOffset_def)
  have L: "LenDelegators (state (fst (withdraw X g nodeAddr))) nodeAddr = LenDelegators ?s3 nodeAddr"
    using r by (simp add: LenDelegators_def)
  show "snd (withdraw X g nodeAddr) = None" using r by simp
  show "balance (fst (withdraw X g nodeAddr)) =
      balance (Transfer g (GovernanceContractAddress X) (Owner d) (Value d))"
    using r st1(3) by simp
  show "LenDelegators (state (fst (withdraw X g nodeAddr))) nodeAddr = lastIndex"
    using f(1) by (simp add: L)
  show "DelegatorsOffset (state (fst (withdraw X g nodeAddr))) nodeAddr (contract_Caller g) = - 1"
    using f(2) by (simp add: O)
  show "\<forall>j. 0 \<le> j \<and> j < lastIndex \<longrightarrow>
           Delegator (state (fst (withdraw X g nodeAddr))) nodeAddr j =
             (if j = off then lastRow else Delegator (state g) nodeAddr j)"
    using rows by (simp add: D)
  show "Delegator (state (fst (withdraw X g nodeAddr))) nodeAddr lastIndex = emptyDelegator"
    using f(3) by (simp add: D)
  show "off \<noteq> lastIndex \<and> Owner lastRow \<noteq> contract_Caller g \<longrightarrow>
           DelegatorsOffset (state (fst (withdraw X g nodeAddr))) nodeAddr (Owner lastRow) = off"
    using o1 by (simp add: O)
  show "\<forall>b. b \<noteq> contract_Caller g \<and> b \<noteq> Owner lastRow \<longrightarrow>
           DelegatorsOffset (state (fst (withdraw X g nodeAddr))) nodeAddr b =
             DelegatorsOffset (state g) nodeAddr b"
    using o2 by (simp add: O)
  show "contract_Gas (fst (withdraw X g nodeAddr)) = contract_Gas g - 100000"
    using r by simp
qed

lemma withdraw_out_of_gas:
  assumes node: "0 \<le> NodesOffsetByAddress (state g) nodeAddr"
    and off: "off = DelegatorsOffset (state g) nodeAddr (contract_Caller g)" "0 \<le> off"
    and d: "d = Delegator (state g) nodeAddr off"
    and u: "UndelegatedAt d \<noteq> 0"
    and t: "UndelegatedAt d + LockupPeriod (state g) < evm_Time g"
    and len: "2 \<le> LenDelegators (state g) nodeAddr" "LenDelegators (state g) nodeAddr \<le> 2 ^ 256"
    and bal: "Value d \<le> balance g (GovernanceContractAddress X)"
    and gas: "contract_Gas g < 100000"
  shows "snd (withdraw X g nodeAddr) = Some ErrOutOfGas"
proof -
  let ?who = "contract_Caller g"
  let ?s3 = "withdrawDeleteDelegator (state g) nodeAddr ?who off"
  let ?g1 = "Transfer (g\<lparr>state := ?s3\<rparr>) (GovernanceContractAddress X) (Owner d) (Value d)"
  have len1: "1 \<le> LenDelegators (state g) nodeAddr" using len by simp
  note f = withdrawDeleteDelegator_facts[OF len1 len(2), of ?who off]
  have tr: "transfer (g\<lparr>state := ?s3\<rparr>) (GovernanceContractAddress X) (Owner d) (Value d)
            = (?g1, True)"
    using bal by (simp add: transfer_ok)
  have st1: "state ?g1 = ?s3" "contract_Gas ?g1 = contract_Gas g"
    by (simp_all add: Transfer_def Let_def)
  have "LenDelegators (state ?g1) nodeAddr \<noteq> 0" using f(1) len(1) st1(1) by simp
  then have "withdraw X g nodeAddr = useGas ?g1 100000"
    using node off u t tr d by (simp add: withdraw_def Let_def)
  then show ?thesis using gas st1(2) by (simp add: useGas_eq)
qed

lemma withdraw_unfunded:
  assumes node: "0 \<le> NodesOffsetByAddress (state g) nodeAddr"
    and off: "off = DelegatorsOffset (state g) nodeAddr (contract_Caller g)" "0 \<le> off"
    and d: "d = Delegator (state g) nodeAddr off"
    and u: "UndelegatedAt d \<noteq> 0"
    and t: "UndelegatedAt d + LockupPeriod (state g) < evm_Time g"
    and bal: "balance g (GovernanceContractAddress X) < Value d"
  shows "snd (withdraw X g nodeAddr) = Some errExecutionReverted"
proof -
  let ?s3 = "withdrawDeleteDelegator (state g) nodeAddr (contract_Caller g) off"
  have tr: "transfer (g\<lparr>state := ?s3\<rparr>) (GovernanceContractAddress X) (Owner d) (Value d)
            = (g\<lparr>state := ?s3\<rparr>, False)"
    using bal by (simp add: transfer_def CanTransfer_def)
  show ?thesis
    using node off u t tr d by (simp add: withdraw_def Let_def)
qed

lemma withdrawCall_sel:
  "NodesOffsetByAddress (state (withdrawCall t)) 1 = 0"
  "contract_Caller (withdrawCall t) = 5"
  "DelegatorsOffset (state (withdrawCall t)) 1 5 = 1"
  "Delegator (state (withdrawCall t)) 1 1 = \<lparr>Owner = 5, Value = 10, UndelegatedAt = 5000\<rparr>"
  "LockupPeriod (state (withdrawCall t)) = 1000"
  "evm_Time (withdrawCall t) = t"
  "LenDelegators (state (withdrawCall t)) 1 = 2"
  "balance (withdrawCall t) a = (if a = 99 then 50 else 0)"
  "contract_Gas (withdrawCall t) = 1000000"
  "GovernanceContractAddress (ext0 s) = 99"
  by (simp_all add: withdrawCall_def callAs_def contract0_def lockupState_def genesis4_def
      emptyState_def NodesOffsetByAddress_def DelegatorsOffset_def Delegator_def
      LockupPeriod_def LenDelegators_def ext0_def)

lemma ownerWithdrawCall_sel:
  "NodesOffsetByAddress (state (ownerWithdrawCall t)) 1 = 0"
  "contract_Caller (ownerWithdrawCall t) = 1"
  "DelegatorsOffset (state (ownerWithdrawCall t)) 1 1 = 0"
  "DelegatorsOffset (state (ownerWithdrawCall t)) 1 5 = 1"
  "Delegator (state (ownerWithdrawCall t)) 1 0 = \<lparr>Owner = 1, Value = 10, UndelegatedAt = 5000\<rparr>"
  "Delegator (state (ownerWithdrawCall t)) 1 1 = \<lparr>Owner = 5, Value = 10, UndelegatedAt = 0\<rparr>"
  "LockupPeriod (state (ownerWithdrawCall t)) = 1000"
  "evm_Time (ownerWithdrawCall t) = t"
  "LenDelegators (state (ownerWithdrawCall t)) 1 = 2"
  "balance (ownerWithdrawCall t) a = (if a = 99 then 50 else 0)"
  "contract_Gas (ownerWithdrawCall t) = 1000000"
  by (simp_all add: ownerWithdrawCall_def ownerLeftState_def callAs_def contract0_def
      lockupState_def genesis4_def emptyState_def NodesOffsetByAddress_def DelegatorsOffset_def
      Delegator_def LockupPeriod_def LenDelegators_def)

text \<open>
  Claim C7 as stated lets every \<open>withdraw\<close> after the lockup succeed. The handler also
  charges 100000 units of gas and pays from the governance account: with undelegation at
  5000 and a lockup period of 1000, the call at time 6001 ends with \<open>ErrOutOfGas\<close> when
  it has 99999 units of gas, and with a revert when the governance account is empty.
\<close>

theorem withdraw_lockup_counterexample:
  "UndelegatedAt (Delegator (state (withdrawCall (5000 + 1001))) 1
     (DelegatorsOffset (state (withdrawCall (5000 + 1001))) 1
        (contract_Caller (withdrawCall (5000 + 1001))))) = 5000 \<and>
   LockupPeriod (state (withdrawCall (5000 + 1001))) = 1000 \<and>
   evm_Time (withdrawCall (5000 + 1001)) = 5000 + 1001 \<and>
   snd (withdraw (ext0 genesis4) ((withdrawCall (5000 + 1001))\<lparr>contract_Gas := 99999\<rparr>) 1) =
     Some ErrOutOfGas \<and>
   snd (withdraw (ext0 genesis4) ((withdrawCall (5000 + 1001))\<lparr>balance := (\<lambda>a. 0)\<rparr>) 1) =
     Some errExecutionReverted"
proof -
  let ?g = "withdrawCall (5000 + 1001)"
  let ?d = "\<lparr>Owner = 5, Value = 10, UndelegatedAt = 5000\<rparr>"
  have a: "snd (withdraw (ext0 genesis4) (?g\<lparr>contract_Gas := 99999\<rparr>) 1) = Some ErrOutOfGas"
    by (rule withdraw_out_of_gas[where off = 1 and d = ?d]) (simp_all add: withdrawCall_sel)
  have b: "snd (withdraw (ext0 genesis4) (?g\<lparr>balance := (\<lambda>a. 0)\<rparr>) 1) =
           Some errExecutionReverted"
    by (rule withdraw_unfunded[where off = 1 and d = ?d]) (simp_all add: withdrawCall_sel)
  show ?thesis using a b by (simp add: withdrawCall_sel)
qed

text \<open>
  Claim C7, amended. Let the target node be registered and let the caller have a delegator
  row \<open>d\<close> on it, at the offset \<open>off\<close>, with \<open>undelegatedAt = u\<close>, \<open>u \<noteq> 0\<close>; let \<open>L\<close>
  be the lockup period and \<open>lastRow\<close> the last row of the node's delegator array. A
  \<open>withdraw\<close> at a time not after \<open>u + L\<close> is penalized. At a time after \<open>u + L\<close>,
  when the governance account holds the value of the row and the call has gas for
  100000, the call succeeds, moves exactly the recorded value of the row from the
  governance account to the owner recorded in the row, and removes the row by swap-delete:
  the array is one shorter, the last row has taken the place of the removed one, every
  other row is where it was, the former last slot is zero, the reverse index of the caller
  is absent, that of the moved row's owner is the new place and all others are unchanged.
  (The numbers of the last row fit 256 bits, as every stored row's do; in case the row was
  the node's only one and a node record is moved into a freed slot, that record can be
  read and its public key parses.)
\<close>

theorem withdraw_lockup:
  assumes "0 \<le> NodesOffsetByAddress (state g) nodeAddr"
    and "off = DelegatorsOffset (state g) nodeAddr (contract_Caller g)" and "0 \<le> off"
    and "d = Delegator (state g) nodeAddr off"
    and "UndelegatedAt d \<noteq> 0"
    and "lastIndex = LenDelegators (state g) nodeAddr - 1"
    and "lastRow = Delegator (state g) nodeAddr lastIndex"
  shows "(evm_Time g \<le> UndelegatedAt d + LockupPeriod (state g) \<longrightarrow>
            withdraw X g nodeAddr = penalize g) \<and>
         (UndelegatedAt d + LockupPeriod (state g) < evm_Time g \<and>
          Value d \<le> balance g (GovernanceContractAddress X) \<and>
          100000 \<le> contract_Gas g \<and>
          off \<le> lastIndex \<and> lastIndex < 2 ^ 256 \<and>
          0 \<le> Value lastRow \<and> Value lastRow < 2 ^ 256 \<and>
          0 \<le> UndelegatedAt lastRow \<and> UndelegatedAt lastRow < 2 ^ 256 \<and>
          (lastIndex = 0 \<and> off \<noteq> LenNodes (state g) - 1 \<longrightarrow>
             (\<exists>m. Node (state g) (LenNodes (state g) - 1) = Some m \<and>
                  UnmarshalPubkey X (PublicKey m) \<noteq> None)) \<longrightarrow>
            snd (withdraw X g nodeAddr) = None \<and>
            balance (fst (withdraw X g nodeAddr)) =
              balance (Transfer g (GovernanceContractAddress X) (Owner d) (Value d)) \<and>
            LenDelegators (state (fst (withdraw X g nodeAddr))) nodeAddr = lastIndex \<and>
            DelegatorsOffset (state (fst (withdraw X g nodeAddr))) nodeAddr (contract_Caller g)
              = - 1 \<and>
            (\<forall>j. 0 \<le> j \<and> j < lastIndex \<longrightarrow>
               Delegator (state (fst (withdraw X g nodeAddr))) nodeAddr j =
                 (if j = off then lastRow else Delegator (state g) nodeAddr j)) \<and>
            Delegator (state (fst (withdraw X g nodeAddr))) nodeAddr lastIndex = emptyDelegator \<and>
            (off \<noteq> lastIndex \<and> Owner lastRow \<noteq> contract_Caller g \<longrightarrow>
               DelegatorsOffset (state (fst (withdraw X g nodeAddr))) nodeAddr (Owner lastRow)
                 = off) \<and>
            (\<forall>b. b \<noteq> contract_Caller g \<and> b \<noteq> Owner lastRow \<longrightarrow>
               DelegatorsOffset (state (fst (withdraw X g nodeAddr))) nodeAddr b =
                 DelegatorsOffset (state g) nodeAddr b) \<and>
            contract_Gas (fst (withdraw X g nodeAddr)) = contract_Gas g - 100000)"
proof (intro conjI impI)
  assume "evm_Time g \<le> UndelegatedAt d + LockupPeriod (state g)"
  with assms(1,2,3,4,5) show "withdraw X g nodeAddr = penalize g"
    by (intro withdraw_locked[where d = d]) simp_all
next
  assume a: "UndelegatedAt d + LockupPeriod (state g) < evm_Time g \<and>
          Value d \<le> balance g (GovernanceContractAddress X) \<and>
          100000 \<le> contract_Gas g \<and>
          off \<le> lastIndex \<and> lastIndex < 2 ^ 256 \<and>
          0 \<le> Value lastRow \<and> Value lastRow < 2 ^ 256 \<and>
          0 \<le> UndelegatedAt lastRow \<and> UndelegatedAt lastRow < 2 ^ 256 \<and>
          (lastIndex = 0 \<and> off \<noteq> LenNodes (state g) - 1 \<longrightarrow>
             (\<exists>m. Node (state g) (LenNodes (state g) - 1) = Some m \<and>
                  UnmarshalPubkey X (PublicKey m) \<noteq> None))"
  note r = withdraw_unlocked[where X = X, OF assms(1,2,3,4,5,6,7)]
  have t: "UndelegatedAt d + LockupPeriod (state g) < evm_Time g" using a by blast
  have len: "off \<le> lastIndex" "lastIndex < 2 ^ 256" using a by blast+
  have range: "0 \<le> Value lastRow" "Value lastRow < 2 ^ 256"
      "0 \<le> UndelegatedAt lastRow" "UndelegatedAt lastRow < 2 ^ 256" using a by blast+
  have bal: "Value d \<le> balance g (GovernanceContractAddress X)" using a by blast
  have gas: "100000 \<le> contract_Gas g" using a by blast
  have key: "lastIndex = 0 \<and> off \<noteq> LenNodes (state g) - 1 \<longrightarrow>
             (\<exists>m. Node (state g) (LenNodes (state g) - 1) = Some m \<and>
                  UnmarshalPubkey X (PublicKey m) \<noteq> None)" using a by blast
  note rr = r[OF t len range bal gas key]
  show "snd (withdraw X g nodeAddr) = None" by (rule rr(1))
  show "balance (fst (withdraw X g nodeAddr)) =
      balance (Transfer g (GovernanceContractAddress X) (Owner d) (Value d))" by (rule rr(2))
  show "LenDelegators (state (fst (withdraw X g nodeAddr))) nodeAddr = lastIndex" by (rule rr(3))
  show "DelegatorsOffset (state (fst (withdraw X g nodeAddr))) nodeAddr (contract_Caller g) = - 1"
    by (rule rr(4))
  show "\<forall>j. 0 \<le> j \<and> j < lastIndex \<longrightarrow>
           Delegator (state (fst (withdraw X g nodeAddr))) nodeAddr j =
             (if j = off then lastRow else Delegator (state g) nodeAddr j)" by (rule rr(5))
  show "Delegator (state (fst (withdraw X g nodeAddr))) nodeAddr lastIndex = emptyDelegator"
    by (rule rr(6))
  assume "off \<noteq> lastIndex \<and> Owner lastRow \<noteq> contract_Caller g"
  then show "DelegatorsOffset (state (fst (withdraw X g nodeAddr))) nodeAddr (Owner lastRow) = off"
    using rr(7) by blast
next
  assume a: "UndelegatedAt d + LockupPeriod (state g) < evm_Time g \<and>
          Value d \<le> balance g (GovernanceContractAddress X) \<and>
          100000 \<le> contract_Gas g \<and>
          off \<le> lastIndex \<and> lastIndex < 2 ^ 256 \<and>
          0 \<le> Value lastRow \<and> Value lastRow < 2 ^ 256 \<and>
          0 \<le> UndelegatedAt lastRow \<and> UndelegatedAt lastRow < 2 ^ 256 \<and>
          (lastIndex = 0 \<and> off \<noteq> LenNodes (state g) - 1 \<longrightarrow>
             (\<exists>m. Node (state g) (LenNodes (state g) - 1) = Some m \<and>
                  UnmarshalPubkey X (PublicKey m) \<noteq> None))"
  note r = withdraw_unlocked[where X = X, OF assms(1,2,3,4,5,6,7)]
  have t: "UndelegatedAt d + LockupPeriod (state g) < evm_Time g" using a by blast
  have len: "off \<le> lastIndex" "lastIndex < 2 ^ 256" using a by blast+
  have range: "0 \<le> Value lastRow" "Value lastRow < 2 ^ 256"
      "0 \<le> UndelegatedAt lastRow" "UndelegatedAt lastRow < 2 ^ 256" using a by blast+
  have bal: "Value d \<le> balance g (GovernanceContractAddress X)" using a by blast
  have gas: "100000 \<le> contract_Gas g" using a by blast
  have key: "lastIndex = 0 \<and> off \<noteq> LenNodes (state g) - 1 \<longrightarrow>
             (\<exists>m. Node (state g) (LenNodes (state g) - 1) = Some m \<and>
                  UnmarshalPubkey X (PublicKey m) \<noteq> None)" using a by blast
  note rr = r[OF t len range bal gas key]
  show "\<forall>b. b \<noteq> contract_Caller g \<and> b \<noteq> Owner lastRow \<longrightarrow>
               DelegatorsOffset (state (fst (withdraw X g nodeAddr))) nodeAddr b =
                 DelegatorsOffset (state g) nodeAddr b" by (rule rr(8))
  show "contract_Gas (fst (withdraw X g nodeAddr)) = contract_Gas g - 100000" by (rule rr(9))
qed

text \<open>
  Lockup period 1000, undelegated at 5000: penalized at 5999, paid out at 6001, for the
  address 5 in the last row of node 1 and for the owner of node 1 in the first row, whose
  place the row of the address 5 then takes.
\<close>

theorem withdraw_lockup_witness:
  "withdraw (ext0 genesis4) (withdrawCall (5000 + 999)) 1 = penalize (withdrawCall (5000 + 999)) \<and>
   snd (withdraw (ext0 genesis4) (withdrawCall (5000 + 1001)) 1) = None \<and>
   balance (fst (withdraw (ext0 genesis4) (withdrawCall (5000 + 1001)) 1)) 5 = 10 \<and>
   balance (fst (withdraw (ext0 genesis4) (withdrawCall (5000 + 1001)) 1)) 99 = 40 \<and>
   DelegatorsOffset (state (fst (withdraw (ext0 genesis4) (withdrawCall (5000 + 1001)) 1))) 1 5
     = - 1 \<and>
   LenDelegators (state (fst (withdraw (ext0 genesis4) (withdrawCall (5000 + 1001)) 1))) 1 = 1 \<and>
   snd (withdraw (ext0 genesis4) (ownerWithdrawCall (5000 + 1001)) 1) = None \<and>
   balance (fst (withdraw (ext0 genesis4) (ownerWithdrawCall (5000 + 1001)) 1)) 1 = 10 \<and>
   LenDelegators (state (fst (withdraw (ext0 genesis4) (ownerWithdrawCall (5000 + 1001)) 1))) 1
     = 1 \<and>
   Delegator (state (fst (withdraw (ext0 genesis4) (ownerWithdrawCall (5000 + 1001)) 1))) 1 0
     = \<lparr>Owner = 5, Value = 10, UndelegatedAt = 0\<rparr> \<and>
   DelegatorsOffset (state (fst (withdraw (ext0 genesis4) (ownerWithdrawCall (5000 + 1001)) 1)))
     1 5 = 0 \<and>
   DelegatorsOffset (state (fst (withdraw (ext0 genesis4) (ownerWithdrawCall (5000 + 1001)) 1)))
     1 1 = - 1"
proof -
  let ?d = "\<lparr>Owner = 5, Value = 10, UndelegatedAt = 5000\<rparr>"
  let ?o = "\<lparr>Owner = 1, Value = 10, UndelegatedAt = 5000\<rparr>"
  let ?l = "\<lparr>Owner = 5, Value = 10, UndelegatedAt = 0\<rparr>"
  have h: "0 \<le> NodesOffsetByAddress (state (withdrawCall t)) 1"
    "1 = DelegatorsOffset (state (withdrawCall t)) 1 (contract_Caller (withdrawCall t))"
    "0 \<le> (1::int)"
    "?d = Delegator (state (withdrawCall t)) 1 1"
    "UndelegatedAt ?d \<noteq> 0"
    "1 = LenDelegators (state (withdrawCall t)) 1 - 1"
    "?d = Delegator (state (withdrawCall t)) 1 1" for t
    by (simp_all add: withdrawCall_sel)
  have k: "0 \<le> NodesOffsetByAddress (state (ownerWithdrawCall t)) 1"
    "0 = DelegatorsOffset (state (ownerWithdrawCall t)) 1 (contract_Caller (ownerWithdrawCall t))"
    "0 \<le> (0::int)"
    "?o = Delegator (state (ownerWithdrawCall t)) 1 0"
    "UndelegatedAt ?o \<noteq> 0"
    "1 = LenDelegators (state (ownerWithdrawCall t)) 1 - 1"
    "?l = Delegator (state (ownerWithdrawCall t)) 1 1" for t
    by (simp_all add: ownerWithdrawCall_sel)
  note t1 = withdraw_lockup[OF h, of "5000 + 999" "ext0 genesis4"]
  note t2 = withdraw_lockup[OF h, of "5000 + 1001" "ext0 genesis4"]
  note t3 = withdraw_lockup[OF k, of "5000 + 1001" "ext0 genesis4"]
  have a: "withdraw (ext0 genesis4) (withdrawCall (5000 + 999)) 1
           = penalize (withdrawCall (5000 + 999))"
    using t1 by (simp add: withdrawCall_sel)
  have b: "snd (withdraw (ext0 genesis4) (withdrawCall (5000 + 1001)) 1) = None \<and>
    balance (fst (withdraw (ext0 genesis4) (withdrawCall (5000 + 1001)) 1)) =
      balance (Transfer (withdrawCall (5000 + 1001)) 99 5 10) \<and>
    DelegatorsOffset (state (fst (withdraw (ext0 genesis4) (withdrawCall (5000 + 1001)) 1))) 1 5
      = - 1 \<and>
    LenDelegators (state (fst (withdraw (ext0 genesis4) (withdrawCall (5000 + 1001)) 1))) 1 = 1"
    using t2 by (simp add: withdrawCall_sel)
  have c: "balance (Transfer (withdrawCall (5000 + 1001)) 99 5 10) 5 = 10"
    "balance (Transfer (withdrawCall (5000 + 1001)) 99 5 10) 99 = 40"
    by (simp_all add: Transfer_def Let_def withdrawCall_sel)
  have e: "snd (withdraw (ext0 genesis4) (ownerWithdrawCall (5000 + 1001)) 1) = None \<and>
    balance (fst (withdraw (ext0 genesis4) (ownerWithdrawCall (5000 + 1001)) 1)) =
      balance (Transfer (ownerWithdrawCall (5000 + 1001)) 99 1 10) \<and>
    LenDelegators (state (fst (withdraw (ext0 genesis4) (ownerWithdrawCall (5000 + 1001)) 1))) 1
      = 1 \<and>
    Delegator (state (fst (withdraw (ext0 genesis4) (ownerWithdrawCall (5000 + 1001)) 1))) 1 0
      = ?l \<and>
    DelegatorsOffset (state (fst (withdraw (ext0 genesis4) (ownerWithdrawCall (5000 + 1001)) 1)))
      1 5 = 0 \<and>
    DelegatorsOffset (state (fst (withdraw (ext0 genesis4) (ownerWithdrawCall (5000 + 1001)) 1)))
      1 1 = - 1"
    using t3 by (simp add: ownerWithdrawCall_sel withdrawCall_sel(10))
  have f: "balance (Transfer (ownerWithdrawCall (5000 + 1001)) 99 1 10) 1 = 10"
    by (simp add: Transfer_def Let_def ownerWithdrawCall_sel)
  show ?thesis using a b c e f by simp
qed

end
